theory Spec2Isabelle
  imports Main "HOL-Library.AList"
begin

section \<open>Data model (types.ts)\<close>

text \<open>
  The scheduler is a TypeScript program. Its object types become records, its string-literal
  unions become datatypes. Field names carry a short prefix, because several of the source's
  types share the names \<open>id\<close>, \<open>start\<close>, \<open>end\<close> and \<open>therapistId\<close>.
  An optional field \<open>f?: T\<close> is a \<open>T option\<close>.
\<close>

datatype AppointmentType = Evaluation | Followup

datatype AppointmentStatus = Scheduled | CheckIn | InProgress | Completed | Incomplete

datatype AppointmentMode = InClinic | Telephonic

datatype AuditType = Created | Rescheduled | Cancelled | StatusChange

text \<open>The shape of the \<open>from\<close> and \<open>to\<close> fields of an audit event.\<close>

record AuditDelta =
  d_start :: "string option"
  d_end :: "string option"
  d_status :: "AppointmentStatus option"

record AppointmentAuditEvent =
  ev_at :: string
  ev_by :: string
  ev_type :: AuditType
  ev_from :: "AuditDelta option"
  ev_to :: "AuditDelta option"
  ev_note :: "string option"

record WorkingHours =
  wh_start :: string
  wh_end :: string
  wh_days :: "int list"

datatype StaffRole = PT | OT | Speech

record Therapist =
  t_id :: string
  t_name :: string
  t_role :: StaffRole
  t_clinicId :: string
  t_workingHours :: WorkingHours

record Appointment =
  a_id :: string
  a_clinicId :: string
  a_therapistId :: string
  a_patient :: string
  a_start :: string
  a_end :: string
  a_type :: AppointmentType
  a_mode :: AppointmentMode
  a_status :: AppointmentStatus
  a_createdBy :: string
  a_updatedAt :: string
  a_cancelledAt :: "string option"
  a_cancelledBy :: "string option"
  a_audit :: "AppointmentAuditEvent list"

text \<open>\<open>reason\<close> of a lock has the single value \<open>'booked'\<close>.\<close>

datatype LockReason = Booked

record SlotLock =
  l_id :: string
  l_therapistId :: string
  l_start :: string
  l_end :: string
  l_lockedBy :: string
  l_reason :: LockReason


section \<open>The JavaScript platform\<close>

text \<open>
  A JavaScript \<open>Date\<close> holds a time value: an integral number of milliseconds since the
  epoch, or NaN for an Invalid Date. \<open>None\<close> is the Invalid Date.

  The relational operators convert both dates to their time values; a comparison with NaN
  is false.
\<close>

type_synonym Date = "int option"

text \<open>
  The numbers the program computes with are minutes and hours: integers, or NaN (\<open>None\<close>).
\<close>

type_synonym Number = "int option"

definition jsLess :: "int option \<Rightarrow> int option \<Rightarrow> bool" where
  "jsLess a b = (case a of None \<Rightarrow> False | Some x \<Rightarrow> (case b of None \<Rightarrow> False | Some y \<Rightarrow> x < y))"


text \<open>
  What the program takes from the platform and the theory does not define: the parser
  behind \<open>new Date(string)\<close>, the offset of local time from UTC in minutes at an instant
  (the getters \<open>getDay\<close>, \<open>getHours\<close>, \<open>getMinutes\<close> read local time), the text
  \<open>YYYY-MM-DDTHH:mm:ss.sssZ\<close> that \<open>toISOString\<close> prints for a valid instant, and
  \<open>Number\<close> on a string (the strings it is applied to are the parts of an \<open>HH:mm\<close>
  value).
\<close>

record Platform =
  parseISO :: "string \<Rightarrow> Date"
  tzOffset :: "int \<Rightarrow> int"
  toISOString :: "int \<Rightarrow> string"
  toNumber :: "string \<Rightarrow> Number"








text \<open>
  Truthiness of an optional string, as in \<open>if (a.cancelledAt)\<close>: \<open>undefined\<close> and the
  empty string are falsy.
\<close>

definition truthy :: "string option \<Rightarrow> bool" where
  "truthy v = (case v of None \<Rightarrow> False | Some s \<Rightarrow> s \<noteq> [])"

section \<open>Interval arithmetic (utils/schedule.ts)\<close>

text \<open>\<open>overlaps = (startA, endA, startB, endB) => startA < endB && endA > startB\<close>\<close>

definition overlaps :: "Date \<Rightarrow> Date \<Rightarrow> Date \<Rightarrow> Date \<Rightarrow> bool" where
  "overlaps startA endA startB endB = (jsLess startA endB \<and> jsLess startB endA)"

section \<open>The local store (api/localSchedulerApi.ts)\<close>

record StoredSchedulerState =
  version :: int
  updatedAt :: string
  appointments :: "Appointment list"

text \<open>
  The item under \<open>STORAGE_KEY\<close> in \<open>localStorage\<close>. \<open>None\<close> stands for the three cases
  that \<open>readState\<close> treats alike: no item, an empty item, and an item that is not JSON.
  \<open>version\<close> is a JavaScript number; it is an \<open>int\<close> here, which is exact below \<open>2^53\<close>.
\<close>

type_synonym Storage = "StoredSchedulerState option"

text \<open>
  What a call of the API reads from its surroundings: the session's \<open>clientId\<close> (fixed when
  the API object is made), the seed list of \<open>mockData\<close>, and the values that the calls of
  \<open>nowIso()\<close> and \<open>randomId()\<close> give during this call: \<open>seededAt\<close> for the call inside
  \<open>readState\<close> (made only when the store has to be seeded), \<open>now\<close> for the call in the
  command's body, \<open>randomId\<close> for the id of a new appointment.
\<close>

record Ambient =
  clientId :: string
  seedAppointments :: "Appointment list"
  seededAt :: string
  now :: string
  randomId :: string

text \<open>The four \<open>Error\<close>s the store throws, named after their messages.\<close>

datatype StoreError =
    AppointmentNotFound         \<comment> \<open>\<open>'Appointment not found'\<close>\<close>
  | LockedByAnotherUser         \<comment> \<open>\<open>'Appointment is locked by another user'\<close>\<close>
  | AppointmentIsCancelled      \<comment> \<open>\<open>'Appointment is cancelled'\<close>\<close>
  | OverlappingBooking          \<comment> \<open>\<open>'Overlapping booking for this resource'\<close>\<close>

definition seedState :: "Ambient \<Rightarrow> StoredSchedulerState" where
  "seedState amb = \<lparr>version = 1, updatedAt = seededAt amb, appointments = seedAppointments amb\<rparr>"

text \<open>\<open>readState\<close> returns the state and leaves the storage seeded.\<close>

definition readState :: "Ambient \<Rightarrow> Storage \<Rightarrow> StoredSchedulerState \<times> Storage" where
  "readState amb storage =
     (case storage of
        None \<Rightarrow> (seedState amb, Some (seedState amb))
      | Some st \<Rightarrow> (st, Some st))"

definition writeState :: "StoredSchedulerState \<Rightarrow> Storage \<Rightarrow> Storage" where
  "writeState next storage = Some next"

definition findAppointmentOrThrow :: "Appointment list \<Rightarrow> string \<Rightarrow> StoreError + Appointment" where
  "findAppointmentOrThrow appts ident =
     (case find (\<lambda>a. a_id a = ident) appts of
        None \<Rightarrow> Inl AppointmentNotFound
      | Some appt \<Rightarrow> Inr appt)"

definition assertOwnedOrThrow :: "Appointment \<Rightarrow> string \<Rightarrow> StoreError + unit" where
  "assertOwnedOrThrow appt client =
     (if a_createdBy appt \<noteq> client then Inl LockedByAnotherUser
      else if truthy (a_cancelledAt appt) then Inl AppointmentIsCancelled
      else Inr ())"

definition assertNoOverlapOrThrow :: "Platform \<Rightarrow> Appointment list \<Rightarrow> Appointment \<Rightarrow> StoreError + unit" where
  "assertNoOverlapOrThrow P appts candidate =
     (let startD = parseISO P (a_start candidate);
          endD = parseISO P (a_end candidate);
          hasOverlap = list_ex (\<lambda>a.
            if truthy (a_cancelledAt a) then False
            else if a_id a = a_id candidate then False
            else if a_therapistId a \<noteq> a_therapistId candidate then False
            else overlaps startD endD (parseISO P (a_start a)) (parseISO P (a_end a))) appts
      in if hasOverlap then Inl OverlappingBooking else Inr ())"

record CreateAppointmentInput =
  in_clinicId :: string
  in_therapistId :: string
  in_patient :: string
  in_start :: string
  in_end :: string
  in_type :: AppointmentType
  in_mode :: AppointmentMode

text \<open>The candidate records that the five commands build before they commit.\<close>

definition createdRecord :: "Ambient \<Rightarrow> CreateAppointmentInput \<Rightarrow> Appointment" where
  "createdRecord amb inp =
     \<lparr>a_id = randomId amb,
      a_clinicId = in_clinicId inp,
      a_therapistId = in_therapistId inp,
      a_patient = in_patient inp,
      a_start = in_start inp,
      a_end = in_end inp,
      a_type = in_type inp,
      a_mode = in_mode inp,
      a_status = Scheduled,
      a_createdBy = clientId amb,
      a_updatedAt = now amb,
      a_cancelledAt = None,
      a_cancelledBy = None,
      a_audit = [\<lparr>ev_at = now amb, ev_by = clientId amb, ev_type = Created, ev_from = None,
                  ev_to = Some \<lparr>d_start = Some (in_start inp), d_end = Some (in_end inp),
                                d_status = Some Scheduled\<rparr>,
                  ev_note = None\<rparr>]\<rparr>"

definition rescheduledRecord :: "Ambient \<Rightarrow> Appointment \<Rightarrow> string \<Rightarrow> string \<Rightarrow> Appointment" where
  "rescheduledRecord amb current startS endS =
     current\<lparr>a_start := startS, a_end := endS, a_updatedAt := now amb,
       a_audit := a_audit current @
         [\<lparr>ev_at = now amb, ev_by = clientId amb, ev_type = Rescheduled,
           ev_from = Some \<lparr>d_start = Some (a_start current), d_end = Some (a_end current),
                           d_status = None\<rparr>,
           ev_to = Some \<lparr>d_start = Some startS, d_end = Some endS, d_status = None\<rparr>,
           ev_note = None\<rparr>]\<rparr>"

definition reassignedRecord :: "Ambient \<Rightarrow> Appointment \<Rightarrow> string \<Rightarrow> Appointment" where
  "reassignedRecord amb current therapist =
     current\<lparr>a_therapistId := therapist, a_updatedAt := now amb,
       a_audit := a_audit current @
         [\<lparr>ev_at = now amb, ev_by = clientId amb, ev_type = Rescheduled,
           ev_from = None, ev_to = None,
           ev_note = Some (''reassigned:'' @ a_therapistId current @ ''->'' @ therapist)\<rparr>]\<rparr>"

definition statusChangedRecord :: "Ambient \<Rightarrow> Appointment \<Rightarrow> AppointmentStatus \<Rightarrow> Appointment" where
  "statusChangedRecord amb current status =
     current\<lparr>a_status := status, a_updatedAt := now amb,
       a_audit := a_audit current @
         [\<lparr>ev_at = now amb, ev_by = clientId amb, ev_type = StatusChange,
           ev_from = Some \<lparr>d_start = None, d_end = None, d_status = Some (a_status current)\<rparr>,
           ev_to = Some \<lparr>d_start = None, d_end = None, d_status = Some status\<rparr>,
           ev_note = None\<rparr>]\<rparr>"

definition cancelledRecord :: "Ambient \<Rightarrow> Appointment \<Rightarrow> Appointment" where
  "cancelledRecord amb current =
     current\<lparr>a_cancelledAt := Some (now amb), a_cancelledBy := Some (clientId amb),
       a_updatedAt := now amb,
       a_audit := a_audit current @
         [\<lparr>ev_at = now amb, ev_by = clientId amb, ev_type = Cancelled,
           ev_from = None, ev_to = None, ev_note = None\<rparr>]\<rparr>"

text \<open>\<open>state.appointments.map((a) => (a.id === id ? nextAppt : a))\<close>\<close>

definition replaceById :: "string \<Rightarrow> Appointment \<Rightarrow> Appointment list \<Rightarrow> Appointment list" where
  "replaceById ident nextAppt appts = map (\<lambda>a. if a_id a = ident then nextAppt else a) appts"

text \<open>
  A command returns what its promise settles to (\<open>Inl\<close> is the rejection) and the storage
  it leaves. None of the five bodies awaits, so each runs to its end without interleaving.
\<close>

type_synonym Outcome = "(StoreError + Appointment) \<times> Storage"

definition createAppointment :: "Platform \<Rightarrow> Ambient \<Rightarrow> CreateAppointmentInput \<Rightarrow> Storage \<Rightarrow> Outcome" where
  "createAppointment P amb inp storage =
     (let (state, stored) = readState amb storage;
          appt = createdRecord amb inp
      in case assertNoOverlapOrThrow P (appointments state) appt of
           Inl e \<Rightarrow> (Inl e, stored)
         | Inr _ \<Rightarrow>
             (Inr appt,
              writeState \<lparr>version = version state + 1, updatedAt = now amb,
                          appointments = appointments state @ [appt]\<rparr> stored))"

definition rescheduleAppointment :: "Platform \<Rightarrow> Ambient \<Rightarrow> string \<Rightarrow> string \<Rightarrow> string \<Rightarrow> Storage \<Rightarrow> Outcome" where
  "rescheduleAppointment P amb ident startS endS storage =
     (let (state, stored) = readState amb storage
      in case findAppointmentOrThrow (appointments state) ident of
           Inl e \<Rightarrow> (Inl e, stored)
         | Inr current \<Rightarrow>
            (case assertOwnedOrThrow current (clientId amb) of
               Inl e \<Rightarrow> (Inl e, stored)
             | Inr _ \<Rightarrow>
                (let nextAppt = rescheduledRecord amb current startS endS
                 in case assertNoOverlapOrThrow P (appointments state) nextAppt of
                      Inl e \<Rightarrow> (Inl e, stored)
                    | Inr _ \<Rightarrow>
                        (Inr nextAppt,
                         writeState \<lparr>version = version state + 1, updatedAt = now amb,
                                     appointments = replaceById ident nextAppt (appointments state)\<rparr>
                           stored))))"

definition reassignAppointment :: "Platform \<Rightarrow> Ambient \<Rightarrow> string \<Rightarrow> string \<Rightarrow> Storage \<Rightarrow> Outcome" where
  "reassignAppointment P amb ident therapist storage =
     (let (state, stored) = readState amb storage
      in case findAppointmentOrThrow (appointments state) ident of
           Inl e \<Rightarrow> (Inl e, stored)
         | Inr current \<Rightarrow>
            (case assertOwnedOrThrow current (clientId amb) of
               Inl e \<Rightarrow> (Inl e, stored)
             | Inr _ \<Rightarrow>
                (let nextAppt = reassignedRecord amb current therapist
                 in case assertNoOverlapOrThrow P (appointments state) nextAppt of
                      Inl e \<Rightarrow> (Inl e, stored)
                    | Inr _ \<Rightarrow>
                        (Inr nextAppt,
                         writeState \<lparr>version = version state + 1, updatedAt = now amb,
                                     appointments = replaceById ident nextAppt (appointments state)\<rparr>
                           stored))))"

definition updateAppointmentStatus :: "Ambient \<Rightarrow> string \<Rightarrow> AppointmentStatus \<Rightarrow> Storage \<Rightarrow> Outcome" where
  "updateAppointmentStatus amb ident status storage =
     (let (state, stored) = readState amb storage
      in case findAppointmentOrThrow (appointments state) ident of
           Inl e \<Rightarrow> (Inl e, stored)
         | Inr current \<Rightarrow>
            (case assertOwnedOrThrow current (clientId amb) of
               Inl e \<Rightarrow> (Inl e, stored)
             | Inr _ \<Rightarrow>
                (let nextAppt = statusChangedRecord amb current status
                 in (Inr nextAppt,
                     writeState \<lparr>version = version state + 1, updatedAt = now amb,
                                 appointments = replaceById ident nextAppt (appointments state)\<rparr>
                       stored))))"

definition cancelAppointment :: "Ambient \<Rightarrow> string \<Rightarrow> Storage \<Rightarrow> Outcome" where
  "cancelAppointment amb ident storage =
     (let (state, stored) = readState amb storage
      in case findAppointmentOrThrow (appointments state) ident of
           Inl e \<Rightarrow> (Inl e, stored)
         | Inr current \<Rightarrow>
            (case assertOwnedOrThrow current (clientId amb) of
               Inl e \<Rightarrow> (Inl e, stored)
             | Inr _ \<Rightarrow>
                (let nextAppt = cancelledRecord amb current
                 in (Inr nextAppt,
                     writeState \<lparr>version = version state + 1, updatedAt = now amb,
                                 appointments = replaceById ident nextAppt (appointments state)\<rparr>
                       stored))))"

text \<open>
  The mutating methods of the \<open>SchedulerApi\<close> object, as one type of calls, so that a
  statement can speak of every mutating command.
\<close>

datatype Command =
    CreateAppointment CreateAppointmentInput
  | RescheduleAppointment string string string
  | ReassignAppointment string string
  | UpdateAppointmentStatus string AppointmentStatus
  | CancelAppointment string

fun exec :: "Platform \<Rightarrow> Ambient \<Rightarrow> Command \<Rightarrow> Storage \<Rightarrow> Outcome" where
  "exec P amb (CreateAppointment inp) storage = createAppointment P amb inp storage"
| "exec P amb (RescheduleAppointment ident startS endS) storage = rescheduleAppointment P amb ident startS endS storage"
| "exec P amb (ReassignAppointment ident therapist) storage = reassignAppointment P amb ident therapist storage"
| "exec P amb (UpdateAppointmentStatus ident status) storage = updateAppointmentStatus amb ident status storage"
| "exec P amb (CancelAppointment ident) storage = cancelAppointment amb ident storage"

text \<open>The id a record-targeting command is aimed at; a create has none.\<close>

fun target :: "Command \<Rightarrow> string option" where
  "target (CreateAppointment inp) = None"
| "target (RescheduleAppointment ident startS endS) = Some ident"
| "target (ReassignAppointment ident therapist) = Some ident"
| "target (UpdateAppointmentStatus ident status) = Some ident"
| "target (CancelAppointment ident) = Some ident"

text \<open>The state a command works on: what \<open>readState\<close> loads at its first line.\<close>

definition loaded :: "Ambient \<Rightarrow> Storage \<Rightarrow> StoredSchedulerState" where
  "loaded amb storage = fst (readState amb storage)"

text \<open>The storage after a commit that leaves the list \<open>appts\<close>.\<close>

definition committed :: "Ambient \<Rightarrow> Storage \<Rightarrow> Appointment list \<Rightarrow> Storage" where
  "committed amb storage appts =
     Some \<lparr>version = version (loaded amb storage) + 1, updatedAt = now amb, appointments = appts\<rparr>"

section \<open>Scheduling rules (domain/schedulerRules.ts)\<close>


text \<open>The lock derived from one appointment: the object literal inside \<open>map\<close>.\<close>

definition lockOf :: "Appointment \<Rightarrow> SlotLock" where
  "lockOf a =
     \<lparr>l_id = ''lock_'' @ a_id a,
      l_therapistId = a_therapistId a,
      l_start = a_start a,
      l_end = a_end a,
      l_lockedBy = a_createdBy a,
      l_reason = Booked\<rparr>"

definition getLocksForRange :: "Appointment list \<Rightarrow> string \<Rightarrow> SlotLock list" where
  "getLocksForRange appts client =
     map lockOf
       (filter (\<lambda>a. a_createdBy a \<noteq> client)
          (filter (\<lambda>a. \<not> truthy (a_cancelledAt a)) appts))"

text \<open>The store's own \<open>buildLocks\<close> (localSchedulerApi.ts) has the same body.\<close>

definition buildLocks :: "Appointment list \<Rightarrow> string \<Rightarrow> SlotLock list" where
  "buildLocks appts client =
     map lockOf
       (filter (\<lambda>a. a_createdBy a \<noteq> client)
          (filter (\<lambda>a. \<not> truthy (a_cancelledAt a)) appts))"









fun nextAllowedStatuses :: "AppointmentStatus \<Rightarrow> AppointmentStatus list" where
  "nextAllowedStatuses Scheduled = [CheckIn, InProgress, Completed, Incomplete]"
| "nextAllowedStatuses CheckIn = [InProgress, Completed, Incomplete]"
| "nextAllowedStatuses InProgress = [Completed, Incomplete]"
| "nextAllowedStatuses Completed = []"
| "nextAllowedStatuses Incomplete = []"

section \<open>Conflict detection (utils/schedule.ts)\<close>





definition apptOverlap :: "Platform \<Rightarrow> Appointment \<Rightarrow> Appointment \<Rightarrow> bool" where
  "apptOverlap P x y =
     overlaps (parseISO P (a_start x)) (parseISO P (a_end x))
              (parseISO P (a_start y)) (parseISO P (a_end y))"



section \<open>Properties the statements are about\<close>

text \<open>A record counts as cancelled when the code's test \<open>a.cancelledAt\<close> is truthy.\<close>

definition active :: "Appointment \<Rightarrow> bool" where
  "active a = (\<not> truthy (a_cancelledAt a))"

text \<open>
  The no-overlap invariant. The store identifies an appointment by its id (it finds,
  replaces and excludes by id), and so does the invariant: two appointments are two
  records with different ids. On a list with distinct ids these are the pairs of different
  entries of the list (lemma \<open>invariant_by_position\<close>), and the commands keep the ids
  distinct, a create when its new id is fresh (lemmas \<open>targeted_keeps_ids\<close> and
  \<open>create_keeps_distinct\<close>).
\<close>

definition noOverlapInvariant :: "Platform \<Rightarrow> Appointment list \<Rightarrow> bool" where
  "noOverlapInvariant P appts =
     (\<forall>x \<in> set appts. \<forall>y \<in> set appts.
        a_id x \<noteq> a_id y \<and> active x \<and> active y \<and> a_therapistId x = a_therapistId y
          \<longrightarrow> \<not> apptOverlap P x y)"

text \<open>
  A candidate record is in conflict with a list when it overlaps a non-cancelled record of
  the list that has its therapist id and another id.
\<close>

definition inConflict :: "Platform \<Rightarrow> Appointment list \<Rightarrow> Appointment \<Rightarrow> bool" where
  "inConflict P appts candidate =
     (\<exists>a \<in> set appts. active a \<and> a_id a \<noteq> a_id candidate
        \<and> a_therapistId a = a_therapistId candidate \<and> apptOverlap P candidate a)"

text \<open>Every audit trail is non-empty and begins with a \<open>created\<close> event.\<close>

definition trailsStartCreated :: "Appointment list \<Rightarrow> bool" where
  "trailsStartCreated appts =
     (\<forall>a \<in> set appts. a_audit a \<noteq> [] \<and> ev_type (hd (a_audit a)) = Created)"



text \<open>
  The storages a program run can leave, from a storage never used: every call of the API
  reads the state first (\<open>fetchSnapshot\<close> does nothing else to the storage), and the five
  commands go on from there. The sessions and the clock may differ from call to call; the
  seed list is the same.
\<close>

inductive reachable :: "Platform \<Rightarrow> Appointment list \<Rightarrow> Storage \<Rightarrow> bool"
  for P :: Platform and seed :: "Appointment list" where
    unused: "reachable P seed None"
  | fetched: "reachable P seed storage \<Longrightarrow> seedAppointments amb = seed
      \<Longrightarrow> reachable P seed (snd (readState amb storage))"
  | called: "reachable P seed storage \<Longrightarrow> seedAppointments amb = seed
      \<Longrightarrow> reachable P seed (snd (exec P amb cmd storage))"

section \<open>Example data\<close>

text \<open>
  A platform for the examples: UTC, and only Monday 13 January 2025, whose midnight is
  1736726400000 ms after the epoch. It parses \<open>2025-01-13THH:mm:00\<close> for the times of the
  table and nothing else, and \<open>Number\<close> reads decimal digits.
\<close>

definition exampleMinutes :: "(string \<times> int) list" where
  "exampleMinutes =
     [(''09:00'', 540), (''09:30'', 570), (''10:00'', 600), (''10:30'', 630),
      (''11:00'', 660), (''12:00'', 720), (''13:00'', 780), (''14:00'', 840)]"

definition exampleParse :: "string \<Rightarrow> Date" where
  "exampleParse s =
     (if take 11 s = ''2025-01-13T'' \<and> drop 16 s = '':00''
      then map_option (\<lambda>m. 1736726400000 + m * 60000) (map_of exampleMinutes (take 5 (drop 11 s)))
      else None)"

definition exampleNumber :: "string \<Rightarrow> Number" where
  "exampleNumber s =
     (if list_all (\<lambda>c. (48::nat) \<le> of_char c \<and> of_char c \<le> (57::nat)) s
      then Some (foldl (\<lambda>n c. n * 10 + (of_char c - 48)) 0 s)
      else None)"

definition examplePlatform :: Platform where
  "examplePlatform =
     \<lparr>parseISO = exampleParse,
      tzOffset = (\<lambda>t. 0),
      toISOString = (\<lambda>t. ''2025-01-13T00:00:00.000Z''),
      toNumber = exampleNumber\<rparr>"

definition at :: "string \<Rightarrow> string" where
  "at hhmm = ''2025-01-13T'' @ hhmm @ '':00''"

text \<open>Two sessions, A and B, over a store that starts empty.\<close>

definition sessionA :: Ambient where
  "sessionA = \<lparr>clientId = ''A'', seedAppointments = [], seededAt = ''s'', now = ''n1'',
               randomId = ''id1''\<rparr>"

definition sessionB :: Ambient where
  "sessionB = \<lparr>clientId = ''B'', seedAppointments = [], seededAt = ''s'', now = ''n2'',
               randomId = ''id2''\<rparr>"

definition booking :: "string \<Rightarrow> string \<Rightarrow> string \<Rightarrow> CreateAppointmentInput" where
  "booking therapist startS endS =
     \<lparr>in_clinicId = ''c1'', in_therapistId = therapist, in_patient = ''D. Carter'',
      in_start = at startS, in_end = at endS, in_type = Evaluation, in_mode = InClinic\<rparr>"

text \<open>The store after session A has booked therapist t1 from 09:00 to 10:00.\<close>

definition storeA :: Storage where
  "storeA = Some \<lparr>version = 2, updatedAt = ''n1'',
                  appointments = [createdRecord sessionA (booking ''t1'' ''09:00'' ''10:00'')]\<rparr>"

definition therapistT1 :: Therapist where
  "therapistT1 =
     \<lparr>t_id = ''t1'', t_name = ''Alex Morgan'', t_role = PT, t_clinicId = ''c1'',
      t_workingHours = \<lparr>wh_start = ''08:00'', wh_end = ''16:00'', wh_days = [1, 2, 3, 4, 5]\<rparr>\<rparr>"

text \<open>
  The same store with two more bookings of session A: therapist t2 from 09:30 to 10:30, and
  therapist t1 from 11:00 to 12:00.
\<close>

definition storeThree :: Storage where
  "storeThree = Some \<lparr>version = 4, updatedAt = ''n1'',
     appointments = [createdRecord sessionA (booking ''t1'' ''09:00'' ''10:00''),
                     createdRecord (sessionA\<lparr>randomId := ''id3''\<rparr>) (booking ''t2'' ''09:30'' ''10:30''),
                     createdRecord (sessionA\<lparr>randomId := ''id4''\<rparr>) (booking ''t1'' ''11:00'' ''12:00'')]\<rparr>"

text \<open>Store A after session A has cancelled its booking, and after it has completed it.\<close>

definition storeCancelled :: Storage where
  "storeCancelled = snd (cancelAppointment sessionA ''id1'' storeA)"

definition storeCompleted :: Storage where
  "storeCompleted = snd (updateAppointmentStatus sessionA ''id1'' Completed storeA)"

text \<open>
  The seed list of \<open>mockData\<close>: seven appointments, each written with the same literal,
  \<open>toISO\<close> and the constants \<open>seededBy\<close>, \<open>seededUpdatedAt\<close>, \<open>seedStatus\<close> and
  \<open>seedMode\<close>.
\<close>

definition toISO :: "string \<Rightarrow> string \<Rightarrow> string" where
  "toISO date time = date @ ''T'' @ time @ '':00''"

definition seedAppointment ::
  "string \<Rightarrow> string \<Rightarrow> string \<Rightarrow> string \<Rightarrow> string \<Rightarrow> string \<Rightarrow> string \<Rightarrow> AppointmentType
   \<Rightarrow> Appointment" where
  "seedAppointment ident clinic therapist patient date startT endT kind =
     \<lparr>a_id = ident, a_clinicId = clinic, a_therapistId = therapist, a_patient = patient,
      a_start = toISO date startT, a_end = toISO date endT, a_type = kind,
      a_mode = InClinic, a_status = Scheduled, a_createdBy = ''seed'',
      a_updatedAt = toISO ''2025-01-01'' ''00:00'',
      a_cancelledAt = None, a_cancelledBy = None,
      a_audit = [\<lparr>ev_at = toISO ''2025-01-01'' ''00:00'', ev_by = ''seed'', ev_type = Created,
                  ev_from = None,
                  ev_to = Some \<lparr>d_start = Some (toISO date startT), d_end = Some (toISO date endT),
                                d_status = Some Scheduled\<rparr>,
                  ev_note = None\<rparr>]\<rparr>"

definition mockAppointments :: "Appointment list" where
  "mockAppointments =
     [seedAppointment ''a1'' ''c1'' ''t1'' ''D. Carter'' ''2025-01-13'' ''09:00'' ''10:00'' Evaluation,
      seedAppointment ''a2'' ''c1'' ''t1'' ''R. Patel'' ''2025-01-13'' ''09:30'' ''10:30'' Followup,
      seedAppointment ''a3'' ''c2'' ''t2'' ''M. Young'' ''2025-01-14'' ''11:00'' ''12:00'' Evaluation,
      seedAppointment ''a4'' ''c3'' ''t3'' ''S. Hill'' ''2025-01-15'' ''14:00'' ''15:30'' Followup,
      seedAppointment ''a5'' ''c1'' ''t4'' ''A. Kim'' ''2025-01-15'' ''10:00'' ''11:00'' Evaluation,
      seedAppointment ''a6'' ''c2'' ''t2'' ''L. Brooks'' ''2025-01-16'' ''15:00'' ''16:30'' Followup,
      seedAppointment ''a7'' ''c1'' ''t5'' ''C. Nguyen'' ''2025-01-16'' ''09:30'' ''10:00'' Followup]"

text \<open>The therapists of \<open>mockData\<close>.\<close>

definition mockTherapists :: "Therapist list" where
  "mockTherapists =
     [therapistT1,
      \<lparr>t_id = ''t2'', t_name = ''Priya Desai'', t_role = PT, t_clinicId = ''c2'',
       t_workingHours = \<lparr>wh_start = ''09:00'', wh_end = ''17:00'', wh_days = [1, 2, 3, 4, 5]\<rparr>\<rparr>,
      \<lparr>t_id = ''t3'', t_name = ''Sofia Bennett'', t_role = OT, t_clinicId = ''c3'',
       t_workingHours = \<lparr>wh_start = ''10:00'', wh_end = ''18:00'', wh_days = [1, 2, 3, 4, 5]\<rparr>\<rparr>,
      \<lparr>t_id = ''t4'', t_name = ''Marcus Lee'', t_role = Speech, t_clinicId = ''c1'',
       t_workingHours = \<lparr>wh_start = ''08:00'', wh_end = ''15:00'', wh_days = [1, 2, 3, 4, 5]\<rparr>\<rparr>,
      \<lparr>t_id = ''t5'', t_name = ''Jamie Flores'', t_role = PT, t_clinicId = ''c3'',
       t_workingHours = \<lparr>wh_start = ''07:00'', wh_end = ''12:00'', wh_days = [1, 2, 3, 4, 5]\<rparr>\<rparr>]"





section \<open>The store: loading, checks and commits\<close>

lemma readState_loaded: "readState amb storage = (loaded amb storage, Some (loaded amb storage))"
  by (simp add: readState_def loaded_def split: option.splits)

lemma loaded_Some: "loaded amb (Some st) = st"
  by (simp add: loaded_def readState_def)

lemma loaded_None: "loaded amb None = seedState amb"
  by (simp add: loaded_def readState_def)

lemmas command_defs = createAppointment_def rescheduleAppointment_def reassignAppointment_def
  updateAppointmentStatus_def cancelAppointment_def

lemma apptOverlap_sym: "apptOverlap P x y = apptOverlap P y x"
  by (auto simp: apptOverlap_def overlaps_def)

lemma assertNoOverlap_inConflict:
  "assertNoOverlapOrThrow P appts c = (if inConflict P appts c then Inl OverlappingBooking else Inr ())"
  by (auto simp: assertNoOverlapOrThrow_def inConflict_def list_ex_iff active_def apptOverlap_def Let_def)

lemma find_by_id:
  "find (\<lambda>a. a_id a = ident) appts = Some current \<Longrightarrow> current \<in> set appts \<and> a_id current = ident"
  by (auto simp: find_Some_iff)

lemma findAppointment_Inr:
  "findAppointmentOrThrow appts ident = Inr current \<longleftrightarrow> find (\<lambda>a. a_id a = ident) appts = Some current"
  by (simp add: findAppointmentOrThrow_def split: option.splits)

lemma assertOwned_Inr:
  "assertOwnedOrThrow appt client = Inr u \<longleftrightarrow> a_createdBy appt = client \<and> active appt"
  by (simp add: assertOwnedOrThrow_def active_def)

lemma set_replaceById:
  "set (replaceById ident nextAppt appts) \<subseteq> insert nextAppt {a \<in> set appts. a_id a \<noteq> ident}"
  by (auto simp: replaceById_def)

lemma invariant_append:
  assumes inv: "noOverlapInvariant P appts" and free: "\<not> inConflict P appts c"
  shows "noOverlapInvariant P (appts @ [c])"
  unfolding noOverlapInvariant_def
proof (intro ballI impI)
  fix x y
  assume x: "x \<in> set (appts @ [c])" and y: "y \<in> set (appts @ [c])"
    and h: "a_id x \<noteq> a_id y \<and> active x \<and> active y \<and> a_therapistId x = a_therapistId y"
  show "\<not> apptOverlap P x y"
  proof (cases "x = c")
    case True
    with h y have "y \<in> set appts" by auto
    with free h True show ?thesis unfolding inConflict_def by metis
  next
    case False
    with x have xo: "x \<in> set appts" by simp
    show ?thesis
    proof (cases "y = c")
      case True
      with free h xo have "\<not> apptOverlap P c x" unfolding inConflict_def by metis
      with True show ?thesis by (simp add: apptOverlap_sym[of P x])
    next
      case False
      with y have "y \<in> set appts" by simp
      with inv xo h show ?thesis unfolding noOverlapInvariant_def by blast
    qed
  qed
qed

lemma invariant_replace:
  assumes inv: "noOverlapInvariant P appts"
    and ident: "a_id nextAppt = ident"
    and free: "\<forall>b \<in> set appts. a_id b \<noteq> ident \<and> active b \<and> active nextAppt
                 \<and> a_therapistId b = a_therapistId nextAppt \<longrightarrow> \<not> apptOverlap P nextAppt b"
  shows "noOverlapInvariant P (replaceById ident nextAppt appts)"
  unfolding noOverlapInvariant_def
proof (intro ballI impI)
  fix x y
  assume x: "x \<in> set (replaceById ident nextAppt appts)"
    and y: "y \<in> set (replaceById ident nextAppt appts)"
    and h: "a_id x \<noteq> a_id y \<and> active x \<and> active y \<and> a_therapistId x = a_therapistId y"
  from x set_replaceById have x': "x = nextAppt \<or> (x \<in> set appts \<and> a_id x \<noteq> ident)" by fastforce
  from y set_replaceById have y': "y = nextAppt \<or> (y \<in> set appts \<and> a_id y \<noteq> ident)" by fastforce
  show "\<not> apptOverlap P x y"
  proof (cases "x = nextAppt")
    case True
    with h ident y' have "y \<in> set appts \<and> a_id y \<noteq> ident" by auto
    with free h True show ?thesis by auto
  next
    case False
    with x' have xo: "x \<in> set appts \<and> a_id x \<noteq> ident" by simp
    show ?thesis
    proof (cases "y = nextAppt")
      case True
      with free h xo have "\<not> apptOverlap P nextAppt x" by auto
      with True show ?thesis by (simp add: apptOverlap_sym[of P x])
    next
      case False
      with y' have "y \<in> set appts" by simp
      with inv xo h show ?thesis unfolding noOverlapInvariant_def by blast
    qed
  qed
qed

lemma not_inConflict_free:
  "\<not> inConflict P appts nextAppt \<Longrightarrow> a_id nextAppt = ident \<Longrightarrow>
   \<forall>b \<in> set appts. a_id b \<noteq> ident \<and> active b \<and> active nextAppt
                 \<and> a_therapistId b = a_therapistId nextAppt \<longrightarrow> \<not> apptOverlap P nextAppt b"
  by (auto simp: inConflict_def)

lemma same_interval_free:
  assumes inv: "noOverlapInvariant P appts"
    and cur: "current \<in> set appts" "a_id current = ident" "active current"
    and same: "a_id nextAppt = ident" "a_therapistId nextAppt = a_therapistId current"
      "a_start nextAppt = a_start current" "a_end nextAppt = a_end current"
  shows "\<forall>b \<in> set appts. a_id b \<noteq> ident \<and> active b \<and> active nextAppt
                 \<and> a_therapistId b = a_therapistId nextAppt \<longrightarrow> \<not> apptOverlap P nextAppt b"
proof (intro ballI impI)
  fix b assume b: "b \<in> set appts"
    and h: "a_id b \<noteq> ident \<and> active b \<and> active nextAppt \<and> a_therapistId b = a_therapistId nextAppt"
  from inv cur b h same have "\<not> apptOverlap P current b"
    unfolding noOverlapInvariant_def by metis
  with same show "\<not> apptOverlap P nextAppt b" by (simp add: apptOverlap_def)
qed

lemma create_success:
  assumes "createAppointment P amb inp storage = (Inr appt, storage')"
  shows "appt = createdRecord amb inp \<and> \<not> inConflict P (appointments (loaded amb storage)) appt
     \<and> storage' = committed amb storage (appointments (loaded amb storage) @ [appt])"
  using assms
  by (auto simp: createAppointment_def readState_loaded Let_def writeState_def committed_def
        assertNoOverlap_inConflict split: if_splits)

lemma reschedule_success:
  assumes "rescheduleAppointment P amb ident startS endS storage = (Inr appt, storage')"
  shows "\<exists>current. find (\<lambda>a. a_id a = ident) (appointments (loaded amb storage)) = Some current
     \<and> a_createdBy current = clientId amb \<and> active current
     \<and> appt = rescheduledRecord amb current startS endS
     \<and> \<not> inConflict P (appointments (loaded amb storage)) appt
     \<and> storage' = committed amb storage (replaceById ident appt (appointments (loaded amb storage)))"
  using assms
  by (auto simp: rescheduleAppointment_def readState_loaded Let_def writeState_def committed_def
        assertNoOverlap_inConflict findAppointment_Inr assertOwned_Inr split: if_splits sum.splits)

lemma reassign_success:
  assumes "reassignAppointment P amb ident therapist storage = (Inr appt, storage')"
  shows "\<exists>current. find (\<lambda>a. a_id a = ident) (appointments (loaded amb storage)) = Some current
     \<and> a_createdBy current = clientId amb \<and> active current
     \<and> appt = reassignedRecord amb current therapist
     \<and> \<not> inConflict P (appointments (loaded amb storage)) appt
     \<and> storage' = committed amb storage (replaceById ident appt (appointments (loaded amb storage)))"
  using assms
  by (auto simp: reassignAppointment_def readState_loaded Let_def writeState_def committed_def
        assertNoOverlap_inConflict findAppointment_Inr assertOwned_Inr split: if_splits sum.splits)

lemma status_success:
  assumes "updateAppointmentStatus amb ident status storage = (Inr appt, storage')"
  shows "\<exists>current. find (\<lambda>a. a_id a = ident) (appointments (loaded amb storage)) = Some current
     \<and> a_createdBy current = clientId amb \<and> active current
     \<and> appt = statusChangedRecord amb current status
     \<and> storage' = committed amb storage (replaceById ident appt (appointments (loaded amb storage)))"
  using assms
  by (auto simp: updateAppointmentStatus_def readState_loaded Let_def writeState_def committed_def
        findAppointment_Inr assertOwned_Inr split: if_splits sum.splits)

lemma cancel_success:
  assumes "cancelAppointment amb ident storage = (Inr appt, storage')"
  shows "\<exists>current. find (\<lambda>a. a_id a = ident) (appointments (loaded amb storage)) = Some current
     \<and> a_createdBy current = clientId amb \<and> active current
     \<and> appt = cancelledRecord amb current
     \<and> storage' = committed amb storage (replaceById ident appt (appointments (loaded amb storage)))"
  using assms
  by (auto simp: cancelAppointment_def readState_loaded Let_def writeState_def committed_def
        findAppointment_Inr assertOwned_Inr split: if_splits sum.splits)

text \<open>What a successful record-targeting command did, whichever of the four it was.\<close>

lemma targeted_success:
  assumes "target cmd = Some ident" and "exec P amb cmd storage = (Inr appt, storage')"
  shows "\<exists>current ev. find (\<lambda>a. a_id a = ident) (appointments (loaded amb storage)) = Some current
     \<and> a_createdBy current = clientId amb \<and> active current
     \<and> a_audit appt = a_audit current @ [ev] \<and> ev_type ev \<noteq> Created \<and> ev_by ev = clientId amb
     \<and> ev_at ev = now amb \<and> a_id appt = ident \<and> a_updatedAt appt = now amb
     \<and> storage' = committed amb storage (replaceById ident appt (appointments (loaded amb storage)))"
proof (cases cmd)
  case (CreateAppointment inp)
  with assms show ?thesis by simp
next
  case (RescheduleAppointment i startS endS)
  with assms reschedule_success[of P amb ident startS endS storage appt storage']
  show ?thesis by (auto simp: rescheduledRecord_def dest: find_by_id)
next
  case (ReassignAppointment i therapist)
  with assms reassign_success[of P amb ident therapist storage appt storage']
  show ?thesis by (auto simp: reassignedRecord_def dest: find_by_id)
next
  case (UpdateAppointmentStatus i status)
  with assms status_success[of amb ident status storage appt storage']
  show ?thesis by (auto simp: statusChangedRecord_def dest: find_by_id)
next
  case (CancelAppointment i)
  with assms cancel_success[of amb ident storage appt storage']
  show ?thesis by (auto simp: cancelledRecord_def dest: find_by_id)
qed

lemma create_invariant:
  assumes "noOverlapInvariant P (appointments (loaded amb storage))"
    and "createAppointment P amb inp storage = (Inr appt, storage')"
  shows "\<exists>st'. storage' = Some st' \<and> noOverlapInvariant P (appointments st')"
proof -
  from create_success[OF assms(2)]
  have n: "\<not> inConflict P (appointments (loaded amb storage)) appt"
    and s: "storage' = committed amb storage (appointments (loaded amb storage) @ [appt])"
    by blast+
  from invariant_append[OF assms(1) n] s show ?thesis by (simp add: committed_def)
qed

lemma reschedule_invariant:
  assumes "noOverlapInvariant P (appointments (loaded amb storage))"
    and "rescheduleAppointment P amb ident startS endS storage = (Inr appt, storage')"
  shows "\<exists>st'. storage' = Some st' \<and> noOverlapInvariant P (appointments st')"
proof -
  let ?appts = "appointments (loaded amb storage)"
  from reschedule_success[OF assms(2)] obtain current where
    f: "find (\<lambda>a. a_id a = ident) ?appts = Some current"
    and a: "appt = rescheduledRecord amb current startS endS"
    and n: "\<not> inConflict P ?appts appt"
    and s: "storage' = committed amb storage (replaceById ident appt ?appts)"
    by blast
  from f a have i: "a_id appt = ident" by (auto dest: find_by_id simp: rescheduledRecord_def)
  have "noOverlapInvariant P (replaceById ident appt ?appts)"
    by (rule invariant_replace[OF assms(1) i not_inConflict_free[OF n i]])
  with s show ?thesis by (simp add: committed_def)
qed

lemma reassign_invariant:
  assumes "noOverlapInvariant P (appointments (loaded amb storage))"
    and "reassignAppointment P amb ident therapist storage = (Inr appt, storage')"
  shows "\<exists>st'. storage' = Some st' \<and> noOverlapInvariant P (appointments st')"
proof -
  let ?appts = "appointments (loaded amb storage)"
  from reassign_success[OF assms(2)] obtain current where
    f: "find (\<lambda>a. a_id a = ident) ?appts = Some current"
    and a: "appt = reassignedRecord amb current therapist"
    and n: "\<not> inConflict P ?appts appt"
    and s: "storage' = committed amb storage (replaceById ident appt ?appts)"
    by blast
  from f a have i: "a_id appt = ident" by (auto dest: find_by_id simp: reassignedRecord_def)
  have "noOverlapInvariant P (replaceById ident appt ?appts)"
    by (rule invariant_replace[OF assms(1) i not_inConflict_free[OF n i]])
  with s show ?thesis by (simp add: committed_def)
qed

lemma status_invariant:
  assumes "noOverlapInvariant P (appointments (loaded amb storage))"
    and "updateAppointmentStatus amb ident status storage = (Inr appt, storage')"
  shows "\<exists>st'. storage' = Some st' \<and> noOverlapInvariant P (appointments st')"
proof -
  let ?appts = "appointments (loaded amb storage)"
  from status_success[OF assms(2)] obtain current where
    f: "find (\<lambda>a. a_id a = ident) ?appts = Some current"
    and o: "active current"
    and a: "appt = statusChangedRecord amb current status"
    and s: "storage' = committed amb storage (replaceById ident appt ?appts)"
    by blast
  from f have c: "current \<in> set ?appts" "a_id current = ident" by (auto dest: find_by_id)
  from a c have i: "a_id appt = ident" by (simp add: statusChangedRecord_def)
  have "noOverlapInvariant P (replaceById ident appt ?appts)"
    by (rule invariant_replace[OF assms(1) i], rule same_interval_free[OF assms(1) c o i])
       (simp_all add: a statusChangedRecord_def)
  with s show ?thesis by (simp add: committed_def)
qed

lemma cancel_invariant:
  assumes "noOverlapInvariant P (appointments (loaded amb storage))"
    and "cancelAppointment amb ident storage = (Inr appt, storage')"
  shows "\<exists>st'. storage' = Some st' \<and> noOverlapInvariant P (appointments st')"
proof -
  let ?appts = "appointments (loaded amb storage)"
  from cancel_success[OF assms(2)] obtain current where
    f: "find (\<lambda>a. a_id a = ident) ?appts = Some current"
    and o: "active current"
    and a: "appt = cancelledRecord amb current"
    and s: "storage' = committed amb storage (replaceById ident appt ?appts)"
    by blast
  from f have c: "current \<in> set ?appts" "a_id current = ident" by (auto dest: find_by_id)
  from a c have i: "a_id appt = ident" by (simp add: cancelledRecord_def)
  have "noOverlapInvariant P (replaceById ident appt ?appts)"
    by (rule invariant_replace[OF assms(1) i], rule same_interval_free[OF assms(1) c o i])
       (simp_all add: a cancelledRecord_def)
  with s show ?thesis by (simp add: committed_def)
qed

lemma exec_invariant:
  assumes "noOverlapInvariant P (appointments (loaded amb storage))"
    and "exec P amb cmd storage = (Inr appt, storage')"
  shows "\<exists>st'. storage' = Some st' \<and> noOverlapInvariant P (appointments st')"
proof (cases cmd)
  case (CreateAppointment inp)
  with assms show ?thesis by (simp add: create_invariant)
next
  case (RescheduleAppointment ident startS endS)
  with assms show ?thesis by (simp add: reschedule_invariant)
next
  case (ReassignAppointment ident therapist)
  with assms show ?thesis by (simp add: reassign_invariant)
next
  case (UpdateAppointmentStatus ident status)
  with assms show ?thesis by (simp add: status_invariant)
next
  case (CancelAppointment ident)
  with assms show ?thesis by (simp add: cancel_invariant)
qed

lemma exec_failure_storage:
  "fst (exec P amb cmd storage) = Inl e \<Longrightarrow> snd (exec P amb cmd storage) = Some (loaded amb storage)"
  by (cases cmd) (auto simp: command_defs readState_loaded Let_def split: sum.splits)

lemma create_conflict:
  "inConflict P (appointments (loaded amb storage)) (createdRecord amb inp) \<Longrightarrow>
   createAppointment P amb inp storage = (Inl OverlappingBooking, Some (loaded amb storage))"
  by (simp add: createAppointment_def readState_loaded assertNoOverlap_inConflict)

lemma reschedule_conflict:
  "findAppointmentOrThrow (appointments (loaded amb storage)) ident = Inr current \<Longrightarrow>
   assertOwnedOrThrow current (clientId amb) = Inr () \<Longrightarrow>
   inConflict P (appointments (loaded amb storage)) (rescheduledRecord amb current startS endS) \<Longrightarrow>
   rescheduleAppointment P amb ident startS endS storage = (Inl OverlappingBooking, Some (loaded amb storage))"
  by (simp add: rescheduleAppointment_def readState_loaded assertNoOverlap_inConflict)

lemma reassign_conflict:
  "findAppointmentOrThrow (appointments (loaded amb storage)) ident = Inr current \<Longrightarrow>
   assertOwnedOrThrow current (clientId amb) = Inr () \<Longrightarrow>
   inConflict P (appointments (loaded amb storage)) (reassignedRecord amb current therapist) \<Longrightarrow>
   reassignAppointment P amb ident therapist storage = (Inl OverlappingBooking, Some (loaded amb storage))"
  by (simp add: reassignAppointment_def readState_loaded assertNoOverlap_inConflict)

lemmas example_defs = examplePlatform_def exampleParse_def exampleMinutes_def at_def
  sessionA_def sessionB_def booking_def storeA_def storeThree_def createdRecord_def

lemmas check_defs = findAppointmentOrThrow_def assertOwnedOrThrow_def assertNoOverlapOrThrow_def
  overlaps_def jsLess_def truthy_def readState_def writeState_def replaceById_def loaded_def
  apptOverlap_def active_def Let_def



lemma storeCancelled_eval:
  "storeCancelled = Some \<lparr>version = 3, updatedAt = ''n1'', appointments =
      [cancelledRecord sessionA (createdRecord sessionA (booking ''t1'' ''09:00'' ''10:00''))]\<rparr>"
  by (simp add: storeCancelled_def cancelAppointment_def example_defs check_defs)

lemma storeCompleted_eval:
  "storeCompleted = Some \<lparr>version = 3, updatedAt = ''n1'', appointments =
      [statusChangedRecord sessionA (createdRecord sessionA (booking ''t1'' ''09:00'' ''10:00'')) Completed]\<rparr>"
  by (simp add: storeCompleted_def updateAppointmentStatus_def example_defs check_defs)

section \<open>Interval overlap\<close>

text \<open>
  Claim C6. On instants (valid dates) \<open>overlaps\<close> is exactly the half-open test
  \<open>startA < endB \<and> endA > startB\<close>; two intervals that only touch do not overlap, and
  09:00-10:00 against 10:00-11:00 gives false, both as minutes of the day and as the dates
  that the example platform parses.
\<close>

theorem overlaps_half_open:
  "overlaps (Some startA) (Some endA) (Some startB) (Some endB) = (startA < endB \<and> endA > startB)
   \<and> overlaps (Some startA) (Some touch) (Some touch) (Some endB) = False
   \<and> overlaps (Some (9 * 60)) (Some (10 * 60)) (Some (10 * 60)) (Some (11 * 60)) = False
   \<and> overlaps (exampleParse (at ''09:00'')) (exampleParse (at ''10:00''))
               (exampleParse (at ''10:00'')) (exampleParse (at ''11:00'')) = False"
  by (simp add: overlaps_def jsLess_def exampleParse_def exampleMinutes_def at_def)

section \<open>The no-overlap invariant\<close>

text \<open>
  Claim C1. If the no-overlap invariant holds of the list a command loads and the command
  succeeds, the invariant holds of the list it commits; this is so for each of the five
  commands, create, reschedule and reassign among them. A create whose new record is in
  conflict with the loaded list fails with the overlap error, and so does a reschedule or a
  reassign of a found, owned, non-cancelled record whose candidate is in conflict; the
  storage then holds the loaded state.
\<close>

theorem no_overlap_invariant_kept:
  "(noOverlapInvariant P (appointments (loaded amb storage))
      \<and> exec P amb cmd storage = (Inr appt, storage')
      \<longrightarrow> (\<exists>st'. storage' = Some st' \<and> noOverlapInvariant P (appointments st')))
   \<and> (inConflict P (appointments (loaded amb storage)) (createdRecord amb inp)
      \<longrightarrow> createAppointment P amb inp storage = (Inl OverlappingBooking, Some (loaded amb storage)))
   \<and> (findAppointmentOrThrow (appointments (loaded amb storage)) ident = Inr current
      \<and> assertOwnedOrThrow current (clientId amb) = Inr ()
      \<and> inConflict P (appointments (loaded amb storage)) (rescheduledRecord amb current startS endS)
      \<longrightarrow> rescheduleAppointment P amb ident startS endS storage
            = (Inl OverlappingBooking, Some (loaded amb storage)))
   \<and> (findAppointmentOrThrow (appointments (loaded amb storage)) ident = Inr current
      \<and> assertOwnedOrThrow current (clientId amb) = Inr ()
      \<and> inConflict P (appointments (loaded amb storage)) (reassignedRecord amb current therapist)
      \<longrightarrow> reassignAppointment P amb ident therapist storage
            = (Inl OverlappingBooking, Some (loaded amb storage)))"
  using exec_invariant[of P amb storage cmd appt storage']
    create_conflict[of P amb storage inp]
    reschedule_conflict[of amb storage ident current P startS endS]
    reassign_conflict[of amb storage ident current P therapist]
  by blast

text \<open>
  At the examples: session A moves its 09:00 booking to 12:00 in a store that satisfies the
  invariant, and the store it leaves satisfies it. Session B's create from 09:30 to 10:30
  for therapist t1, session A's reschedule of its 11:00 booking to 09:30, and its
  reassignment of the t2 booking to t1 are each in conflict with the 09:00 booking: they
  fail with the overlap error and leave the store as it was.
\<close>

theorem no_overlap_invariant_kept_witness:
  "noOverlapInvariant examplePlatform (appointments (loaded sessionA storeThree))
   \<and> \<not> isl (fst (exec examplePlatform sessionA
                 (RescheduleAppointment ''id1'' (at ''12:00'') (at ''13:00'')) storeThree))
   \<and> noOverlapInvariant examplePlatform (appointments (the (snd (exec examplePlatform sessionA
                 (RescheduleAppointment ''id1'' (at ''12:00'') (at ''13:00'')) storeThree))))
   \<and> inConflict examplePlatform (appointments (loaded sessionB storeA))
        (createdRecord sessionB (booking ''t1'' ''09:30'' ''10:30''))
   \<and> createAppointment examplePlatform sessionB (booking ''t1'' ''09:30'' ''10:30'') storeA
        = (Inl OverlappingBooking, storeA)
   \<and> rescheduleAppointment examplePlatform sessionA ''id4'' (at ''09:30'') (at ''10:30'') storeThree
        = (Inl OverlappingBooking, storeThree)
   \<and> reassignAppointment examplePlatform sessionA ''id3'' ''t1'' storeThree
        = (Inl OverlappingBooking, storeThree)"
proof -
  let ?P = examplePlatform
  let ?move = "RescheduleAppointment ''id1'' (at ''12:00'') (at ''13:00'')"
  let ?three = "appointments (loaded sessionA storeThree)"
  have inv: "noOverlapInvariant ?P ?three"
    by (simp add: noOverlapInvariant_def example_defs check_defs)
  have ok: "\<not> isl (fst (exec ?P sessionA ?move storeThree))"
    by (simp add: example_defs check_defs rescheduleAppointment_def rescheduledRecord_def)
  then obtain appt s' where ex: "exec ?P sessionA ?move storeThree = (Inr appt, s')"
    by (metis isl_def prod.collapse sum.exhaust_sel)
  from no_overlap_invariant_kept[where P = ?P and amb = sessionA and storage = storeThree
      and cmd = ?move and appt = appt and storage' = s', THEN conjunct1] inv ex
  obtain st' where "s' = Some st'" "noOverlapInvariant ?P (appointments st')"
    by blast
  with ex have kept: "noOverlapInvariant ?P (appointments (the (snd (exec ?P sessionA ?move storeThree))))"
    by simp
  have c1: "inConflict ?P (appointments (loaded sessionB storeA))
              (createdRecord sessionB (booking ''t1'' ''09:30'' ''10:30''))"
    by (simp add: inConflict_def example_defs check_defs)
  have lA: "Some (loaded sessionB storeA) = storeA" "Some (loaded sessionA storeThree) = storeThree"
    by (simp_all add: loaded_def readState_def storeA_def storeThree_def)
  from no_overlap_invariant_kept[where P = ?P and amb = sessionB and storage = storeA
      and inp = "booking ''t1'' ''09:30'' ''10:30''", THEN conjunct2, THEN conjunct1] c1 lA
  have r1: "createAppointment ?P sessionB (booking ''t1'' ''09:30'' ''10:30'') storeA
        = (Inl OverlappingBooking, storeA)"
    by simp
  let ?cur4 = "createdRecord (sessionA\<lparr>randomId := ''id4''\<rparr>) (booking ''t1'' ''11:00'' ''12:00'')"
  have f4: "findAppointmentOrThrow ?three ''id4'' = Inr ?cur4"
    "assertOwnedOrThrow ?cur4 (clientId sessionA) = Inr ()"
    "inConflict ?P ?three (rescheduledRecord sessionA ?cur4 (at ''09:30'') (at ''10:30''))"
    by (simp_all add: inConflict_def example_defs check_defs rescheduledRecord_def)
  from no_overlap_invariant_kept[where P = ?P and amb = sessionA and storage = storeThree
      and ident = "''id4''" and current = ?cur4 and startS = "at ''09:30''" and endS = "at ''10:30''",
      THEN conjunct2, THEN conjunct2, THEN conjunct1]
    f4 lA
  have r2: "rescheduleAppointment ?P sessionA ''id4'' (at ''09:30'') (at ''10:30'') storeThree
        = (Inl OverlappingBooking, storeThree)"
    by simp
  let ?cur3 = "createdRecord (sessionA\<lparr>randomId := ''id3''\<rparr>) (booking ''t2'' ''09:30'' ''10:30'')"
  have f3: "findAppointmentOrThrow ?three ''id3'' = Inr ?cur3"
    "assertOwnedOrThrow ?cur3 (clientId sessionA) = Inr ()"
    "inConflict ?P ?three (reassignedRecord sessionA ?cur3 ''t1'')"
    by (simp_all add: inConflict_def example_defs check_defs reassignedRecord_def)
  from no_overlap_invariant_kept[where P = ?P and amb = sessionA and storage = storeThree
      and ident = "''id3''" and current = ?cur3 and therapist = "''t1''",
      THEN conjunct2, THEN conjunct2, THEN conjunct2]
    f3 lA
  have r3: "reassignAppointment ?P sessionA ''id3'' ''t1'' storeThree
        = (Inl OverlappingBooking, storeThree)"
    by simp
  from inv ok kept c1 r1 r2 r3 show ?thesis by blast
qed

section \<open>The checks of a record-targeting command\<close>

lemma targeted_not_found:
  assumes "target cmd = Some ident"
    and "find (\<lambda>a. a_id a = ident) (appointments (loaded amb storage)) = None"
  shows "exec P amb cmd storage = (Inl AppointmentNotFound, Some (loaded amb storage))"
  using assms
  by (cases cmd) (simp_all add: command_defs readState_loaded findAppointmentOrThrow_def)

lemma targeted_locked:
  assumes "target cmd = Some ident"
    and "find (\<lambda>a. a_id a = ident) (appointments (loaded amb storage)) = Some current"
    and "a_createdBy current \<noteq> clientId amb"
  shows "exec P amb cmd storage = (Inl LockedByAnotherUser, Some (loaded amb storage))"
  using assms
  by (cases cmd)
     (simp_all add: command_defs readState_loaded findAppointmentOrThrow_def assertOwnedOrThrow_def)

lemma targeted_cancelled:
  assumes "target cmd = Some ident"
    and "find (\<lambda>a. a_id a = ident) (appointments (loaded amb storage)) = Some current"
    and "a_createdBy current = clientId amb"
    and "truthy (a_cancelledAt current)"
  shows "exec P amb cmd storage = (Inl AppointmentIsCancelled, Some (loaded amb storage))"
  using assms
  by (cases cmd)
     (simp_all add: command_defs readState_loaded findAppointmentOrThrow_def assertOwnedOrThrow_def)

lemma cancel_of_cancelled:
  assumes "find (\<lambda>a. a_id a = ident) (appointments (loaded amb storage)) = Some current"
    and "truthy (a_cancelledAt current)"
  shows "isl (fst (cancelAppointment amb ident storage))
       \<and> snd (cancelAppointment amb ident storage) = Some (loaded amb storage)"
  using assms
  by (simp add: cancelAppointment_def readState_loaded findAppointmentOrThrow_def assertOwnedOrThrow_def)

lemma find_replaced:
  "find (\<lambda>a. a_id a = ident) appts = Some current \<Longrightarrow> a_id nextAppt = ident \<Longrightarrow>
   find (\<lambda>a. a_id a = ident) (replaceById ident nextAppt appts) = Some nextAppt"
  by (induction appts) (auto simp: replaceById_def)

lemma second_cancel_fails:
  assumes first: "cancelAppointment amb ident storage = (Inr appt, storage')"
    and stamp: "now amb \<noteq> []"
  shows "isl (fst (cancelAppointment amb' ident storage'))
       \<and> snd (cancelAppointment amb' ident storage') = storage'"
proof -
  let ?old = "appointments (loaded amb storage)"
  from cancel_success[OF first] obtain current where
    f: "find (\<lambda>a. a_id a = ident) ?old = Some current"
    and a: "appt = cancelledRecord amb current"
    and s: "storage' = committed amb storage (replaceById ident appt ?old)"
    by blast
  from f a have i: "a_id appt = ident" by (auto dest: find_by_id simp: cancelledRecord_def)
  from a stamp have c: "truthy (a_cancelledAt appt)" by (simp add: cancelledRecord_def truthy_def)
  from s have l: "Some (loaded amb' storage') = storage'"
    by (simp add: committed_def loaded_Some)
  from s find_replaced[OF f i]
  have "find (\<lambda>a. a_id a = ident) (appointments (loaded amb' storage')) = Some appt"
    by (simp add: committed_def loaded_Some)
  from cancel_of_cancelled[OF this c] l show ?thesis by simp
qed

text \<open>
  Claim C5. For a command aimed at the id \<open>ident\<close> (reschedule, reassign, status update
  or cancel): when no appointment of the loaded list has the id, it fails with
  \<open>'Appointment not found'\<close>; otherwise, when the first record with the id was created by
  another session, it fails with \<open>'Appointment is locked by another user'\<close>; otherwise,
  when that record's \<open>cancelledAt\<close> is set (a non-empty string, which is what the code tests
  and what every cancellation writes), it fails with \<open>'Appointment is cancelled'\<close>. So a
  cancel of a cancelled appointment fails, whoever asks, and the storage keeps the loaded
  state: no second \<open>cancelled\<close> event is appended. In particular, after a cancel has
  succeeded (at a time whose ISO text is not empty, as every ISO text is), every further
  cancel of the same id fails and leaves the storage as the first cancel left it.
\<close>

theorem targeted_command_checks:
  assumes "target cmd = Some ident"
  shows "(find (\<lambda>a. a_id a = ident) (appointments (loaded amb storage)) = None
            \<longrightarrow> exec P amb cmd storage = (Inl AppointmentNotFound, Some (loaded amb storage)))
       \<and> (find (\<lambda>a. a_id a = ident) (appointments (loaded amb storage)) = Some current
            \<and> a_createdBy current \<noteq> clientId amb
            \<longrightarrow> exec P amb cmd storage = (Inl LockedByAnotherUser, Some (loaded amb storage)))
       \<and> (find (\<lambda>a. a_id a = ident) (appointments (loaded amb storage)) = Some current
            \<and> a_createdBy current = clientId amb \<and> truthy (a_cancelledAt current)
            \<longrightarrow> exec P amb cmd storage = (Inl AppointmentIsCancelled, Some (loaded amb storage)))
       \<and> (find (\<lambda>a. a_id a = ident) (appointments (loaded amb storage)) = Some current
            \<and> truthy (a_cancelledAt current)
            \<longrightarrow> isl (fst (cancelAppointment amb ident storage))
                \<and> snd (cancelAppointment amb ident storage) = Some (loaded amb storage))
       \<and> (cancelAppointment earlier ident before = (Inr appt, storage) \<and> now earlier \<noteq> []
            \<longrightarrow> isl (fst (cancelAppointment amb ident storage))
                \<and> snd (cancelAppointment amb ident storage) = storage)"
  using targeted_not_found[OF assms, of amb storage P]
    targeted_locked[OF assms, of amb storage current P]
    targeted_cancelled[OF assms, of amb storage current P]
    cancel_of_cancelled[of ident amb storage current]
    second_cancel_fails[of earlier ident before appt storage amb]
  by blast

text \<open>
  At the examples: a cancel of an id that no appointment has; session B's cancel of session
  A's booking; and cancels of the booking that session A has cancelled, by A and by B.
\<close>

theorem targeted_command_checks_witness:
  "target (CancelAppointment ''id1'') = Some ''id1''
   \<and> exec examplePlatform sessionA (CancelAppointment ''id9'') storeA = (Inl AppointmentNotFound, storeA)
   \<and> exec examplePlatform sessionB (CancelAppointment ''id1'') storeA = (Inl LockedByAnotherUser, storeA)
   \<and> exec examplePlatform sessionA (CancelAppointment ''id1'') storeCancelled
        = (Inl AppointmentIsCancelled, storeCancelled)
   \<and> isl (fst (cancelAppointment sessionB ''id1'' storeCancelled))
   \<and> snd (cancelAppointment sessionB ''id1'' storeCancelled) = storeCancelled
   \<and> \<not> isl (fst (cancelAppointment sessionA ''id1'' storeA))
   \<and> snd (cancelAppointment sessionA ''id1'' storeA) = storeCancelled
   \<and> now sessionA \<noteq> []
   \<and> isl (fst (cancelAppointment sessionA ''id1'' storeCancelled))
   \<and> snd (cancelAppointment sessionA ''id1'' storeCancelled) = storeCancelled"
proof -
  let ?P = examplePlatform
  let ?a = "createdRecord sessionA (booking ''t1'' ''09:00'' ''10:00'')"
  let ?c = "cancelledRecord sessionA ?a"
  have lA: "Some (loaded sessionA storeA) = storeA" "Some (loaded sessionB storeA) = storeA"
    "Some (loaded sessionA storeCancelled) = storeCancelled"
    "Some (loaded sessionB storeCancelled) = storeCancelled"
    by (simp_all add: loaded_def readState_def storeA_def storeCancelled_eval)
  have t9: "target (CancelAppointment ''id9'') = Some ''id9''"
    and t1: "target (CancelAppointment ''id1'') = Some ''id1''" by simp_all
  have n: "find (\<lambda>a. a_id a = ''id9'') (appointments (loaded sessionA storeA)) = None"
    by (simp add: example_defs check_defs)
  from targeted_command_checks[OF t9, where amb = sessionA and storage = storeA and P = ?P,
      THEN conjunct1] n lA
  have r1: "exec ?P sessionA (CancelAppointment ''id9'') storeA = (Inl AppointmentNotFound, storeA)"
    by simp
  have l: "find (\<lambda>a. a_id a = ''id1'') (appointments (loaded sessionB storeA)) = Some ?a"
    "a_createdBy ?a \<noteq> clientId sessionB"
    by (simp_all add: example_defs check_defs)
  from targeted_command_checks[OF t1, where amb = sessionB and storage = storeA and P = ?P
      and current = ?a, THEN conjunct2, THEN conjunct1] l lA
  have r2: "exec ?P sessionB (CancelAppointment ''id1'') storeA = (Inl LockedByAnotherUser, storeA)"
    by simp
  have c: "find (\<lambda>a. a_id a = ''id1'') (appointments (loaded sessionA storeCancelled)) = Some ?c"
    "a_createdBy ?c = clientId sessionA" "truthy (a_cancelledAt ?c)"
    by (simp_all add: storeCancelled_eval cancelledRecord_def example_defs check_defs)
  from targeted_command_checks[OF t1, where amb = sessionA and storage = storeCancelled and P = ?P
      and current = ?c, THEN conjunct2, THEN conjunct2, THEN conjunct1] c lA
  have r3: "exec ?P sessionA (CancelAppointment ''id1'') storeCancelled
        = (Inl AppointmentIsCancelled, storeCancelled)"
    by simp
  have c': "find (\<lambda>a. a_id a = ''id1'') (appointments (loaded sessionB storeCancelled)) = Some ?c"
    by (simp_all add: storeCancelled_eval cancelledRecord_def example_defs check_defs)
  from targeted_command_checks[OF t1, where amb = sessionB and storage = storeCancelled
      and current = ?c, THEN conjunct2, THEN conjunct2, THEN conjunct2, THEN conjunct1] c' c(3) lA
  have r4: "isl (fst (cancelAppointment sessionB ''id1'' storeCancelled))
     \<and> snd (cancelAppointment sessionB ''id1'' storeCancelled) = storeCancelled"
    by simp
  have ok: "\<not> isl (fst (cancelAppointment sessionA ''id1'' storeA))"
    by (simp add: cancelAppointment_def example_defs check_defs)
  have sc: "snd (cancelAppointment sessionA ''id1'' storeA) = storeCancelled"
    by (simp add: storeCancelled_def)
  from ok sc obtain appt where
    first: "cancelAppointment sessionA ''id1'' storeA = (Inr appt, storeCancelled)"
    by (metis isl_def prod.collapse sum.exhaust_sel)
  have stamp: "now sessionA \<noteq> []" by (simp add: sessionA_def)
  from targeted_command_checks[OF t1, where earlier = sessionA and before = storeA and appt = appt
      and storage = storeCancelled and amb = sessionA,
      THEN conjunct2, THEN conjunct2, THEN conjunct2, THEN conjunct2] first stamp
  have r5: "isl (fst (cancelAppointment sessionA ''id1'' storeCancelled))
     \<and> snd (cancelAppointment sessionA ''id1'' storeCancelled) = storeCancelled"
    by simp
  from t1 r1 r2 r3 r4 ok sc stamp r5 show ?thesis by blast
qed

section \<open>Failure leaves the store as it was\<close>

text \<open>
  Claim C2. When a command fails, with whichever of the four errors, the storage afterwards
  holds exactly the state the command loaded: its version, its \<open>updatedAt\<close> and its list
  of appointments, with every field and audit trail. Whoever reads the store next loads
  the state that the failed command loaded. When a state was stored before, the storage is
  unchanged; when none was, it holds the seed state, which is the state of a store on its
  first use and which \<open>readState\<close> writes whenever it meets an unused storage.
\<close>

theorem failed_command_leaves_store:
  assumes "fst (exec P amb cmd storage) = Inl e"
  shows "snd (exec P amb cmd storage) = Some (loaded amb storage)
       \<and> loaded reader (snd (exec P amb cmd storage)) = loaded amb storage
       \<and> (case storage of
            None \<Rightarrow> snd (exec P amb cmd storage) = Some (seedState amb)
          | Some st \<Rightarrow> snd (exec P amb cmd storage) = Some st)"
proof -
  from assms have "snd (exec P amb cmd storage) = Some (loaded amb storage)"
    by (rule exec_failure_storage)
  then show ?thesis
    by (cases storage) (simp_all add: loaded_Some loaded_None)
qed

text \<open>
  At the examples, one failure of each kind: session B cancels session A's booking; session
  B books therapist t1 across that booking; session A reschedules an id that does not exist,
  on a storage never used; session A updates the status of its cancelled booking.
\<close>

theorem failed_command_leaves_store_witness:
  "fst (exec examplePlatform sessionB (CancelAppointment ''id1'') storeA) = Inl LockedByAnotherUser
   \<and> snd (exec examplePlatform sessionB (CancelAppointment ''id1'') storeA) = storeA
   \<and> fst (exec examplePlatform sessionB (CreateAppointment (booking ''t1'' ''09:30'' ''10:30'')) storeA)
        = Inl OverlappingBooking
   \<and> snd (exec examplePlatform sessionB (CreateAppointment (booking ''t1'' ''09:30'' ''10:30'')) storeA)
        = storeA
   \<and> fst (exec examplePlatform sessionA (RescheduleAppointment ''id9'' (at ''11:00'') (at ''12:00'')) None)
        = Inl AppointmentNotFound
   \<and> snd (exec examplePlatform sessionA (RescheduleAppointment ''id9'' (at ''11:00'') (at ''12:00'')) None)
        = Some (seedState sessionA)
   \<and> fst (exec examplePlatform sessionA (UpdateAppointmentStatus ''id1'' CheckIn) storeCancelled)
        = Inl AppointmentIsCancelled
   \<and> snd (exec examplePlatform sessionA (UpdateAppointmentStatus ''id1'' CheckIn) storeCancelled)
        = storeCancelled"
proof -
  let ?P = examplePlatform
  have stA: "Some (loaded sessionB storeA) = storeA"
    by (simp add: loaded_def readState_def storeA_def)
  have stC: "Some (loaded sessionA storeCancelled) = storeCancelled"
    by (simp add: loaded_def readState_def storeCancelled_eval)
  have f1: "fst (exec ?P sessionB (CancelAppointment ''id1'') storeA) = Inl LockedByAnotherUser"
    by (simp add: cancelAppointment_def example_defs check_defs)
  from failed_command_leaves_store[OF f1, THEN conjunct1] stA
  have s1: "snd (exec ?P sessionB (CancelAppointment ''id1'') storeA) = storeA"
    by simp
  have f2: "fst (exec ?P sessionB (CreateAppointment (booking ''t1'' ''09:30'' ''10:30'')) storeA)
        = Inl OverlappingBooking"
    by (simp add: createAppointment_def example_defs check_defs)
  from failed_command_leaves_store[OF f2, THEN conjunct1] stA
  have s2: "snd (exec ?P sessionB (CreateAppointment (booking ''t1'' ''09:30'' ''10:30'')) storeA) = storeA"
    by simp
  have f3: "fst (exec ?P sessionA (RescheduleAppointment ''id9'' (at ''11:00'') (at ''12:00'')) None)
        = Inl AppointmentNotFound"
    by (simp add: rescheduleAppointment_def seedState_def example_defs check_defs)
  from failed_command_leaves_store[OF f3, THEN conjunct2, THEN conjunct2]
  have s3: "snd (exec ?P sessionA (RescheduleAppointment ''id9'' (at ''11:00'') (at ''12:00'')) None)
        = Some (seedState sessionA)"
    by simp
  have f4: "fst (exec ?P sessionA (UpdateAppointmentStatus ''id1'' CheckIn) storeCancelled)
        = Inl AppointmentIsCancelled"
    by (simp add: storeCancelled_eval updateAppointmentStatus_def cancelledRecord_def
          example_defs check_defs)
  from failed_command_leaves_store[OF f4, THEN conjunct1] stC
  have s4: "snd (exec ?P sessionA (UpdateAppointmentStatus ''id1'' CheckIn) storeCancelled)
        = storeCancelled"
    by simp
  from f1 s1 f2 s2 f3 s3 f4 s4 show ?thesis by blast
qed

section \<open>What a successful command commits\<close>

lemma replace_distinct:
  "distinct (map a_id appts) \<Longrightarrow> find (\<lambda>a. a_id a = ident) appts = Some current \<Longrightarrow>
   \<exists>k < length appts. appts ! k = current \<and> replaceById ident appt appts = appts[k := appt]"
proof (induction appts)
  case Nil
  then show ?case by simp
next
  case (Cons a as)
  show ?case
  proof (cases "a_id a = ident")
    case True
    with Cons.prems have cur: "current = a" by simp
    from Cons.prems(1) have "a_id a \<notin> a_id ` set as" by simp
    with True have "\<forall>x \<in> set as. a_id x \<noteq> ident" by blast
    then have "map (\<lambda>a. if a_id a = ident then appt else a) as = as"
      by (simp add: map_idI)
    with True cur have "(a # as) ! 0 = current \<and> replaceById ident appt (a # as) = (a # as)[0 := appt]"
      by (simp add: replaceById_def)
    then show ?thesis by blast
  next
    case False
    with Cons.prems have "distinct (map a_id as)" "find (\<lambda>a. a_id a = ident) as = Some current"
      by simp_all
    from Cons.IH[OF this] obtain k where
      k: "k < length as" "as ! k = current" "replaceById ident appt as = as[k := appt]"
      by blast
    with False have "Suc k < length (a # as) \<and> (a # as) ! Suc k = current
        \<and> replaceById ident appt (a # as) = (a # as)[Suc k := appt]"
      by (simp add: replaceById_def)
    then show ?thesis by blast
  qed
qed

lemma trails_append:
  "trailsStartCreated appts \<Longrightarrow> a_audit appt \<noteq> [] \<Longrightarrow> ev_type (hd (a_audit appt)) = Created \<Longrightarrow>
   trailsStartCreated (appts @ [appt])"
  by (simp add: trailsStartCreated_def)

lemma trails_replace:
  assumes "trailsStartCreated appts" "a_audit appt \<noteq> []" "ev_type (hd (a_audit appt)) = Created"
  shows "trailsStartCreated (replaceById ident appt appts)"
  using assms set_replaceById[of ident appt appts]
  unfolding trailsStartCreated_def by blast

lemma trail_extended:
  "current \<in> set appts \<Longrightarrow> trailsStartCreated appts \<Longrightarrow>
   a_audit current @ [ev] \<noteq> [] \<and> ev_type (hd (a_audit current @ [ev])) = Created"
  by (simp add: trailsStartCreated_def)

text \<open>
  Every storage that a run leaves holds trails that begin with a \<open>created\<close> event, when the
  seed list does; the seed list of \<open>mockData\<close> does.
\<close>

lemma success_keeps_trails:
  assumes "exec P amb cmd storage = (Inr appt, storage')"
    and "trailsStartCreated (appointments (loaded amb storage))"
  shows "\<exists>st'. storage' = Some st' \<and> trailsStartCreated (appointments st')"
proof (cases "target cmd")
  case None
  then obtain inp where c: "cmd = CreateAppointment inp" by (cases cmd) simp_all
  with assms have cs: "createAppointment P amb inp storage = (Inr appt, storage')" by simp
  from create_success[OF cs]
  have a: "appt = createdRecord amb inp"
    and s: "storage' = committed amb storage (appointments (loaded amb storage) @ [appt])"
    by blast+
  from a have "a_audit appt \<noteq> []" "ev_type (hd (a_audit appt)) = Created"
    by (simp_all add: createdRecord_def)
  from trails_append[OF assms(2) this] s show ?thesis by (simp add: committed_def)
next
  case (Some ident)
  let ?old = "appointments (loaded amb storage)"
  from targeted_success[OF Some assms(1)] obtain current ev where
    f: "find (\<lambda>a. a_id a = ident) ?old = Some current"
    and t: "a_audit appt = a_audit current @ [ev]"
    and s: "storage' = committed amb storage (replaceById ident appt ?old)"
    by blast
  from f have cin: "current \<in> set ?old" by (auto dest: find_by_id)
  from trail_extended[OF cin assms(2), of ev] t
  have "a_audit appt \<noteq> []" "ev_type (hd (a_audit appt)) = Created" by simp_all
  from trails_replace[OF assms(2) this] s show ?thesis by (simp add: committed_def)
qed

lemma exec_Some: "\<exists>st'. snd (exec P amb cmd storage) = Some st'"
  by (cases cmd) (auto simp: command_defs readState_loaded Let_def writeState_def split: sum.splits)

lemma exec_keeps_trails:
  assumes "trailsStartCreated (appointments (loaded amb storage))"
  shows "trailsStartCreated (appointments (the (snd (exec P amb cmd storage))))"
proof (cases "fst (exec P amb cmd storage)")
  case (Inl e)
  from exec_failure_storage[OF this] assms show ?thesis by simp
next
  case (Inr appt)
  then have "exec P amb cmd storage = (Inr appt, snd (exec P amb cmd storage))"
    by (metis prod.collapse)
  from success_keeps_trails[OF this assms] show ?thesis by auto
qed

lemma reachable_trails:
  assumes "reachable P seed storage" and "trailsStartCreated seed"
  shows "case storage of None \<Rightarrow> True | Some st \<Rightarrow> trailsStartCreated (appointments st)"
  using assms(1)
proof (induction rule: reachable.induct)
  case unused
  then show ?case by simp
next
  case (fetched storage amb)
  with assms(2) show ?case
    by (cases storage) (simp_all add: readState_def seedState_def)
next
  case (called storage amb cmd)
  with assms(2) have "trailsStartCreated (appointments (loaded amb storage))"
    by (cases storage) (simp_all add: loaded_def readState_def seedState_def)
  from exec_keeps_trails[OF this, of P cmd] exec_Some[of P amb cmd storage]
  show ?case by auto
qed

lemma mock_trails: "trailsStartCreated mockAppointments"
  by (simp add: trailsStartCreated_def mockAppointments_def seedAppointment_def)

lemma mock_reachable_trails:
  "reachable P mockAppointments (Some st) \<Longrightarrow> trailsStartCreated (appointments st)"
  using reachable_trails[OF _ mock_trails, of P "Some st"] by simp

text \<open>
  Claim C3. A successful command stores a state whose version is the loaded version plus
  one and whose \<open>updatedAt\<close> is the time of the command. A create appends one record, whose
  trail is a single \<open>created\<close> event, and leaves the other records as they were. Any other
  command finds its target record \<open>current\<close> and returns it with exactly one event, not a
  \<open>created\<close> one, appended to \<open>current\<close>'s trail; the stored list is the loaded one with
  the records of that id replaced by the returned record, every other record untouched; with
  distinct ids only one position changes. If every trail of the loaded list begins with a
  \<open>created\<close> event, so does every trail of the stored list; and when the command runs
  on a storage that a run over the seed list of \<open>mockData\<close> has left, every trail of the
  stored list begins with a \<open>created\<close> event.
\<close>

theorem successful_command_commit:
  assumes "exec P amb cmd storage = (Inr appt, storage')"
  shows "\<exists>st'. storage' = Some st'
     \<and> version st' = version (loaded amb storage) + 1
     \<and> updatedAt st' = now amb
     \<and> (case target cmd of
          None \<Rightarrow> appointments st' = appointments (loaded amb storage) @ [appt]
                 \<and> (\<exists>ev. a_audit appt = [ev] \<and> ev_type ev = Created)
        | Some ident \<Rightarrow>
            (\<exists>current ev.
               find (\<lambda>a. a_id a = ident) (appointments (loaded amb storage)) = Some current
               \<and> a_audit appt = a_audit current @ [ev] \<and> ev_type ev \<noteq> Created
               \<and> a_id appt = ident
               \<and> appointments st'
                   = map (\<lambda>a. if a_id a = ident then appt else a) (appointments (loaded amb storage))
               \<and> (distinct (map a_id (appointments (loaded amb storage))) \<longrightarrow>
                   (\<exists>k < length (appointments (loaded amb storage)).
                      appointments (loaded amb storage) ! k = current
                      \<and> appointments st' = (appointments (loaded amb storage))[k := appt]))))
     \<and> (trailsStartCreated (appointments (loaded amb storage))
          \<longrightarrow> trailsStartCreated (appointments st'))
     \<and> (reachable P mockAppointments storage \<and> seedAppointments amb = mockAppointments
          \<longrightarrow> trailsStartCreated (appointments st'))"
proof -
  have run: "reachable P mockAppointments storage \<and> seedAppointments amb = mockAppointments
      \<longrightarrow> trailsStartCreated (appointments (the storage'))"
  proof
    assume "reachable P mockAppointments storage \<and> seedAppointments amb = mockAppointments"
    then have "reachable P mockAppointments (snd (exec P amb cmd storage))"
      by (auto intro: reachable.called)
    with assms exec_Some[of P amb cmd storage]
    show "trailsStartCreated (appointments (the storage'))"
      by (auto simp: mock_reachable_trails)
  qed
  show ?thesis
  proof (cases "target cmd")
    case None
    then obtain inp where c: "cmd = CreateAppointment inp" by (cases cmd) simp_all
    with assms have cs: "createAppointment P amb inp storage = (Inr appt, storage')" by simp
    from create_success[OF cs]
    have a: "appt = createdRecord amb inp"
      and s: "storage' = committed amb storage (appointments (loaded amb storage) @ [appt])"
      by blast+
    from a have t: "\<exists>ev. a_audit appt = [ev] \<and> ev_type ev = Created"
      by (simp add: createdRecord_def)
    then have "a_audit appt \<noteq> []" "ev_type (hd (a_audit appt)) = Created" by auto
    with trails_append[of "appointments (loaded amb storage)" appt]
    have "trailsStartCreated (appointments (loaded amb storage))
            \<longrightarrow> trailsStartCreated (appointments (loaded amb storage) @ [appt])"
      by blast
    with None s t run show ?thesis by (simp add: committed_def)
  next
    case (Some ident)
    let ?old = "appointments (loaded amb storage)"
    from targeted_success[OF Some assms] obtain current ev where
      f: "find (\<lambda>a. a_id a = ident) ?old = Some current"
      and t: "a_audit appt = a_audit current @ [ev]" "ev_type ev \<noteq> Created" "a_id appt = ident"
      and s: "storage' = committed amb storage (replaceById ident appt ?old)"
      by blast
    from f have cin: "current \<in> set ?old" by (auto dest: find_by_id)
    have d: "distinct (map a_id ?old) \<longrightarrow>
          (\<exists>k < length ?old. ?old ! k = current \<and> replaceById ident appt ?old = ?old[k := appt])"
      using replace_distinct[OF _ f] by blast
    have tr: "trailsStartCreated ?old \<longrightarrow> trailsStartCreated (replaceById ident appt ?old)"
    proof
      assume h: "trailsStartCreated ?old"
      from trail_extended[OF cin h, of ev] t
      have "a_audit appt \<noteq> []" "ev_type (hd (a_audit appt)) = Created" by simp_all
      from trails_replace[OF h this] show "trailsStartCreated (replaceById ident appt ?old)" .
    qed
    have r: "replaceById ident appt ?old = map (\<lambda>a. if a_id a = ident then appt else a) ?old"
      by (simp add: replaceById_def)
    from Some f t s d tr r run show ?thesis
      by (simp add: committed_def)
  qed
qed

text \<open>
  At the examples: session A moves its 09:00 booking to 12:00 in the store of three bookings
  (version 4 becomes 5, one entry of the list is replaced), and session B books therapist t2
  in store A (version 2 becomes 3, the new trail has one event). The last two lines are a
  first booking on a storage never used, seeded from \<open>mockData\<close>.
\<close>

theorem successful_command_commit_witness:
  "\<not> isl (fst (exec examplePlatform sessionA
              (RescheduleAppointment ''id1'' (at ''12:00'') (at ''13:00'')) storeThree))
   \<and> distinct (map a_id (appointments (loaded sessionA storeThree)))
   \<and> trailsStartCreated (appointments (loaded sessionA storeThree))
   \<and> version (the (snd (exec examplePlatform sessionA
              (RescheduleAppointment ''id1'' (at ''12:00'') (at ''13:00'')) storeThree))) = 5
   \<and> updatedAt (the (snd (exec examplePlatform sessionA
              (RescheduleAppointment ''id1'' (at ''12:00'') (at ''13:00'')) storeThree))) = ''n1''
   \<and> trailsStartCreated (appointments (the (snd (exec examplePlatform sessionA
              (RescheduleAppointment ''id1'' (at ''12:00'') (at ''13:00'')) storeThree))))
   \<and> (\<exists>k < 3. appointments (the (snd (exec examplePlatform sessionA
              (RescheduleAppointment ''id1'' (at ''12:00'') (at ''13:00'')) storeThree)))
         = (appointments (loaded sessionA storeThree))
             [k := projr (fst (exec examplePlatform sessionA
              (RescheduleAppointment ''id1'' (at ''12:00'') (at ''13:00'')) storeThree))])
   \<and> \<not> isl (fst (exec examplePlatform sessionB
              (CreateAppointment (booking ''t2'' ''11:00'' ''12:00'')) storeA))
   \<and> version (the (snd (exec examplePlatform sessionB
              (CreateAppointment (booking ''t2'' ''11:00'' ''12:00'')) storeA))) = 3
   \<and> length (a_audit (projr (fst (exec examplePlatform sessionB
              (CreateAppointment (booking ''t2'' ''11:00'' ''12:00'')) storeA)))) = 1
   \<and> reachable examplePlatform mockAppointments None
   \<and> \<not> isl (fst (exec examplePlatform (sessionA\<lparr>seedAppointments := mockAppointments\<rparr>)
              (CreateAppointment (booking ''t2'' ''11:00'' ''12:00'')) None))
   \<and> trailsStartCreated (appointments (the
        (snd (exec examplePlatform (sessionA\<lparr>seedAppointments := mockAppointments\<rparr>)
              (CreateAppointment (booking ''t2'' ''11:00'' ''12:00'')) None))))"
proof -
  let ?P = examplePlatform
  let ?move = "RescheduleAppointment ''id1'' (at ''12:00'') (at ''13:00'')"
  let ?old = "appointments (loaded sessionA storeThree)"
  have ok: "\<not> isl (fst (exec ?P sessionA ?move storeThree))"
    by (simp add: example_defs check_defs rescheduleAppointment_def rescheduledRecord_def)
  then obtain appt s' where ex: "exec ?P sessionA ?move storeThree = (Inr appt, s')"
    by (metis isl_def prod.collapse sum.exhaust_sel)
  have d: "distinct (map a_id ?old)"
    by (simp add: example_defs check_defs)
  have t: "trailsStartCreated ?old"
    by (simp add: trailsStartCreated_def example_defs check_defs)
  have v: "version (loaded sessionA storeThree) = 4" "now sessionA = ''n1''" "length ?old = 3"
    by (simp_all add: example_defs check_defs)
  from successful_command_commit[OF ex] d t v obtain st' where
    st: "s' = Some st'" "version st' = 5" "updatedAt st' = ''n1''" "trailsStartCreated (appointments st')"
      "\<exists>k < 3. appointments st' = ?old[k := appt]"
    by auto
  let ?new = "CreateAppointment (booking ''t2'' ''11:00'' ''12:00'')"
  have ok2: "\<not> isl (fst (exec ?P sessionB ?new storeA))"
    by (simp add: example_defs check_defs createAppointment_def)
  then obtain appt2 s2 where ex2: "exec ?P sessionB ?new storeA = (Inr appt2, s2)"
    by (metis isl_def prod.collapse sum.exhaust_sel)
  have v2: "version (loaded sessionB storeA) = 2"
    by (simp add: example_defs check_defs)
  from successful_command_commit[OF ex2] v2 obtain st2 where
    st2: "s2 = Some st2" "version st2 = 3" "length (a_audit appt2) = 1"
    by auto
  let ?seeded = "sessionA\<lparr>seedAppointments := mockAppointments\<rparr>"
  have re: "reachable ?P mockAppointments None" "seedAppointments ?seeded = mockAppointments"
    by (simp_all add: reachable.unused)
  have ok3: "\<not> isl (fst (exec ?P ?seeded ?new None))"
    by (simp add: example_defs check_defs createAppointment_def seedState_def
          mockAppointments_def seedAppointment_def toISO_def)
  then obtain appt3 s3 where ex3: "exec ?P ?seeded ?new None = (Inr appt3, s3)"
    by (metis isl_def prod.collapse sum.exhaust_sel)
  from successful_command_commit[OF ex3] re obtain st3 where
    st3: "s3 = Some st3" "trailsStartCreated (appointments st3)"
    by auto
  from ok d t ok2 re(1) ok3 show ?thesis
    unfolding ex ex2 ex3 using st st2 st3 by simp
qed

section \<open>Status updates\<close>

text \<open>
  Claim C4 says that a status update to a status outside the transition table fails and
  leaves the status as it was. It does not: session A's appointment is \<open>completed\<close>, a
  terminal state with no successor in the table, and its update to \<open>scheduled\<close> succeeds and
  stores the new status.
\<close>

theorem status_transition_counterexample:
  "Scheduled \<notin> set (nextAllowedStatuses Completed)
   \<and> map a_status (appointments (the storeCompleted)) = [Completed]
   \<and> \<not> isl (fst (updateAppointmentStatus sessionA ''id1'' Scheduled storeCompleted))
   \<and> map a_status (appointments (the (snd (updateAppointmentStatus sessionA ''id1'' Scheduled
        storeCompleted)))) = [Scheduled]"
  by (simp add: storeCompleted_eval updateAppointmentStatus_def statusChangedRecord_def
        example_defs check_defs)

text \<open>
  \<open>updateAppointmentStatus\<close> never reads \<open>nextAllowedStatuses\<close>; the table is read only by
  the list view, to fill the choices it offers.
\<close>

lemma status_update_succeeds:
  assumes "find (\<lambda>a. a_id a = ident) (appointments (loaded amb storage)) = Some current"
    and "a_createdBy current = clientId amb" and "\<not> truthy (a_cancelledAt current)"
  shows "updateAppointmentStatus amb ident status storage
     = (Inr (statusChangedRecord amb current status),
        committed amb storage
          (replaceById ident (statusChangedRecord amb current status) (appointments (loaded amb storage))))"
  using assms
  by (simp add: updateAppointmentStatus_def readState_loaded findAppointmentOrThrow_def
        assertOwnedOrThrow_def writeState_def committed_def Let_def)

lemma status_update_failure:
  assumes "fst (updateAppointmentStatus amb ident status storage) = Inl e"
  shows "e \<in> {AppointmentNotFound, LockedByAnotherUser, AppointmentIsCancelled}
     \<and> snd (updateAppointmentStatus amb ident status storage) = Some (loaded amb storage)"
  using assms
  by (auto simp: updateAppointmentStatus_def readState_loaded findAppointmentOrThrow_def
        assertOwnedOrThrow_def Let_def split: option.splits if_splits)

text \<open>
  Claim C4, amended. For an appointment that is found, owned by the acting session and not
  cancelled, \<open>updateAppointmentStatus\<close> succeeds for every requested status, in the
  table or not, and the returned and stored record has the requested status. It fails only
  with the not-found, locked and cancelled errors, and then the storage holds the loaded
  state, so the record's status is unchanged. The table itself gives \<open>completed\<close> and
  \<open>incomplete\<close> no successor.
\<close>

theorem status_update_unchecked:
  "(find (\<lambda>a. a_id a = ident) (appointments (loaded amb storage)) = Some current
      \<and> a_createdBy current = clientId amb \<and> \<not> truthy (a_cancelledAt current)
      \<longrightarrow> updateAppointmentStatus amb ident status storage
            = (Inr (statusChangedRecord amb current status),
               committed amb storage
                 (replaceById ident (statusChangedRecord amb current status)
                    (appointments (loaded amb storage))))
          \<and> a_status (statusChangedRecord amb current status) = status)
   \<and> (fst (updateAppointmentStatus amb ident status storage) = Inl e
      \<longrightarrow> e \<in> {AppointmentNotFound, LockedByAnotherUser, AppointmentIsCancelled}
          \<and> snd (updateAppointmentStatus amb ident status storage) = Some (loaded amb storage))
   \<and> nextAllowedStatuses Completed = [] \<and> nextAllowedStatuses Incomplete = []"
  using status_update_succeeds[of ident amb storage current status]
    status_update_failure[of amb ident status storage e]
  by (simp add: statusChangedRecord_def)

text \<open>
  At the examples: the update of the completed booking to \<open>scheduled\<close> succeeds, and
  session B's update of session A's booking fails and leaves the store as it was.
\<close>

theorem status_update_unchecked_witness:
  "find (\<lambda>a. a_id a = ''id1'') (appointments (loaded sessionA storeCompleted))
     = Some (statusChangedRecord sessionA (createdRecord sessionA (booking ''t1'' ''09:00'' ''10:00'')) Completed)
   \<and> fst (updateAppointmentStatus sessionA ''id1'' Scheduled storeCompleted)
     = Inr (statusChangedRecord sessionA
         (statusChangedRecord sessionA (createdRecord sessionA (booking ''t1'' ''09:00'' ''10:00'')) Completed)
         Scheduled)
   \<and> fst (updateAppointmentStatus sessionB ''id1'' CheckIn storeA) = Inl LockedByAnotherUser
   \<and> snd (updateAppointmentStatus sessionB ''id1'' CheckIn storeA) = storeA"
proof -
  let ?c = "statusChangedRecord sessionA (createdRecord sessionA (booking ''t1'' ''09:00'' ''10:00'')) Completed"
  have h: "find (\<lambda>a. a_id a = ''id1'') (appointments (loaded sessionA storeCompleted)) = Some ?c"
    "a_createdBy ?c = clientId sessionA" "\<not> truthy (a_cancelledAt ?c)"
    by (simp_all add: storeCompleted_eval statusChangedRecord_def example_defs check_defs)
  from status_update_unchecked[where ident = "''id1''" and amb = sessionA and storage = storeCompleted
      and current = ?c and status = Scheduled, THEN conjunct1] h
  have r1: "fst (updateAppointmentStatus sessionA ''id1'' Scheduled storeCompleted)
     = Inr (statusChangedRecord sessionA ?c Scheduled)"
    by simp
  have f: "fst (updateAppointmentStatus sessionB ''id1'' CheckIn storeA) = Inl LockedByAnotherUser"
    by (simp add: updateAppointmentStatus_def example_defs check_defs)
  have lA: "Some (loaded sessionB storeA) = storeA"
    by (simp add: loaded_def readState_def storeA_def)
  from status_update_unchecked[where ident = "''id1''" and amb = sessionB and storage = storeA
      and status = CheckIn and e = LockedByAnotherUser, THEN conjunct2, THEN conjunct1] f lA
  have r2: "snd (updateAppointmentStatus sessionB ''id1'' CheckIn storeA) = storeA"
    by simp
  from h(1) r1 f r2 show ?thesis by blast
qed

section \<open>Creating an appointment\<close>

text \<open>
  Claim C10 says that a create request for a therapist id that matches no known resource
  fails. It does not: no therapist of \<open>mockData\<close> has the id \<open>t9\<close>, and session B's
  request for \<open>t9\<close> returns a new appointment with that id.
\<close>

theorem create_unknown_resource_counterexample:
  "find (\<lambda>t. t_id t = ''t9'') mockTherapists = None
   \<and> \<not> isl (fst (createAppointment examplePlatform sessionB (booking ''t9'' ''09:00'' ''10:00'') storeA))
   \<and> a_therapistId (projr (fst (createAppointment examplePlatform sessionB
         (booking ''t9'' ''09:00'' ''10:00'') storeA))) = ''t9''"
  by (simp add: mockTherapists_def therapistT1_def createAppointment_def example_defs check_defs)

lemma create_failure:
  assumes "fst (createAppointment P amb inp storage) = Inl e"
  shows "e = OverlappingBooking \<and> inConflict P (appointments (loaded amb storage)) (createdRecord amb inp)"
  using assms
  by (auto simp: createAppointment_def readState_loaded assertNoOverlap_inConflict Let_def
        split: if_splits)

lemma create_succeeds:
  assumes "\<not> inConflict P (appointments (loaded amb storage)) (createdRecord amb inp)"
  shows "createAppointment P amb inp storage
     = (Inr (createdRecord amb inp),
        committed amb storage (appointments (loaded amb storage) @ [createdRecord amb inp]))"
  using assms
  by (simp add: createAppointment_def readState_loaded assertNoOverlap_inConflict Let_def
        writeState_def committed_def)

text \<open>
  Claim C10, amended. The only failure of \<open>createAppointment\<close> is the overlap error, and
  it occurs exactly when the new record is in conflict with the loaded list. The store looks
  up no therapist: a request that is not in conflict succeeds and returns a record with the
  requested therapist id, whatever that id is.
\<close>

theorem create_fails_only_on_overlap:
  "(fst (createAppointment P amb inp storage) = Inl e
      \<longrightarrow> e = OverlappingBooking
          \<and> inConflict P (appointments (loaded amb storage)) (createdRecord amb inp))
   \<and> (\<not> inConflict P (appointments (loaded amb storage)) (createdRecord amb inp)
      \<longrightarrow> createAppointment P amb inp storage
            = (Inr (createdRecord amb inp),
               committed amb storage (appointments (loaded amb storage) @ [createdRecord amb inp]))
          \<and> a_therapistId (createdRecord amb inp) = in_therapistId inp)"
  using create_failure[of P amb inp storage e] create_succeeds[of P amb storage inp]
  by (simp add: createdRecord_def)

text \<open>
  At the examples: session B's request for therapist t1 across session A's booking fails
  with the overlap error; the same request for the unknown therapist \<open>t9\<close> succeeds.
\<close>

theorem create_fails_only_on_overlap_witness:
  "fst (createAppointment examplePlatform sessionB (booking ''t1'' ''09:30'' ''10:30'') storeA)
     = Inl OverlappingBooking
   \<and> inConflict examplePlatform (appointments (loaded sessionB storeA))
        (createdRecord sessionB (booking ''t1'' ''09:30'' ''10:30''))
   \<and> \<not> inConflict examplePlatform (appointments (loaded sessionB storeA))
        (createdRecord sessionB (booking ''t9'' ''09:30'' ''10:30''))
   \<and> fst (createAppointment examplePlatform sessionB (booking ''t9'' ''09:30'' ''10:30'') storeA)
     = Inr (createdRecord sessionB (booking ''t9'' ''09:30'' ''10:30''))"
proof -
  let ?P = examplePlatform
  have f: "fst (createAppointment ?P sessionB (booking ''t1'' ''09:30'' ''10:30'') storeA)
     = Inl OverlappingBooking"
    by (simp add: createAppointment_def example_defs check_defs)
  from create_fails_only_on_overlap[where P = ?P and amb = sessionB and storage = storeA
      and inp = "booking ''t1'' ''09:30'' ''10:30''" and e = OverlappingBooking, THEN conjunct1] f
  have c: "inConflict ?P (appointments (loaded sessionB storeA))
        (createdRecord sessionB (booking ''t1'' ''09:30'' ''10:30''))"
    by simp
  have n: "\<not> inConflict ?P (appointments (loaded sessionB storeA))
        (createdRecord sessionB (booking ''t9'' ''09:30'' ''10:30''))"
    by (simp add: inConflict_def example_defs check_defs)
  from create_fails_only_on_overlap[where P = ?P and amb = sessionB and storage = storeA
      and inp = "booking ''t9'' ''09:30'' ''10:30''", THEN conjunct2] n
  have r: "fst (createAppointment ?P sessionB (booking ''t9'' ''09:30'' ''10:30'') storeA)
     = Inr (createdRecord sessionB (booking ''t9'' ''09:30'' ''10:30''))"
    by simp
  from f c n r show ?thesis by blast
qed

section \<open>Lock derivation\<close>

text \<open>
  Claim C8. The locks derived for a session are, in order, one lock for each appointment
  of the list that is not cancelled and was created by another session, and nothing else:
  there are as many locks as such appointments, every lock comes from one of them, and no
  lock is owned by the session itself. A lock carries its appointment's therapist id, start
  and end, has the appointment's creator as \<open>lockedBy\<close>, and the id \<open>lock_\<close> followed by
  the appointment's id. The store's \<open>buildLocks\<close> derives the same locks.
\<close>

theorem lock_derivation:
  "getLocksForRange appts client = map lockOf (filter (\<lambda>a. active a \<and> a_createdBy a \<noteq> client) appts)
   \<and> buildLocks appts client = getLocksForRange appts client
   \<and> length (getLocksForRange appts client)
       = length (filter (\<lambda>a. active a \<and> a_createdBy a \<noteq> client) appts)
   \<and> (\<forall>lock \<in> set (getLocksForRange appts client).
         l_lockedBy lock \<noteq> client
         \<and> (\<exists>a \<in> set appts. active a \<and> a_createdBy a \<noteq> client \<and> lock = lockOf a))
   \<and> l_therapistId (lockOf a) = a_therapistId a \<and> l_start (lockOf a) = a_start a
   \<and> l_end (lockOf a) = a_end a \<and> l_lockedBy (lockOf a) = a_createdBy a
   \<and> l_id (lockOf a) = ''lock_'' @ a_id a"
proof -
  have g: "getLocksForRange appts client
      = map lockOf (filter (\<lambda>a. active a \<and> a_createdBy a \<noteq> client) appts)"
    by (simp add: getLocksForRange_def active_def conj_commute)
  have b: "buildLocks appts client = getLocksForRange appts client"
    by (simp add: getLocksForRange_def buildLocks_def)
  have m: "\<forall>lock \<in> set (getLocksForRange appts client).
         l_lockedBy lock \<noteq> client
         \<and> (\<exists>a \<in> set appts. active a \<and> a_createdBy a \<noteq> client \<and> lock = lockOf a)"
    unfolding g by (auto simp: lockOf_def)
  from g b m show ?thesis by (simp add: lockOf_def)
qed

text \<open>
  At the examples: session B sees one lock, for session A's booking of therapist t1 from
  09:00 to 10:00, locked by A; session A sees none; and once the booking is cancelled,
  session B sees none.
\<close>

theorem lock_derivation_witness:
  "getLocksForRange (appointments (the storeA)) ''B''
     = [\<lparr>l_id = ''lock_id1'', l_therapistId = ''t1'', l_start = at ''09:00'', l_end = at ''10:00'',
         l_lockedBy = ''A'', l_reason = Booked\<rparr>]
   \<and> lockOf (hd (appointments (the storeA))) \<in> set (getLocksForRange (appointments (the storeA)) ''B'')
   \<and> l_lockedBy (lockOf (hd (appointments (the storeA)))) \<noteq> ''B''
   \<and> getLocksForRange (appointments (the storeA)) ''A'' = []
   \<and> buildLocks (appointments (the storeCancelled)) ''B'' = []"
proof -
  have a: "getLocksForRange (appointments (the storeA)) ''B''
     = [\<lparr>l_id = ''lock_id1'', l_therapistId = ''t1'', l_start = at ''09:00'', l_end = at ''10:00'',
         l_lockedBy = ''A'', l_reason = Booked\<rparr>]"
    using lock_derivation[of "appointments (the storeA)" "''B''", THEN conjunct1]
    by (simp add: lockOf_def example_defs check_defs)
  have b: "getLocksForRange (appointments (the storeA)) ''A'' = []"
    using lock_derivation[of "appointments (the storeA)" "''A''", THEN conjunct1]
    by (simp add: lockOf_def example_defs check_defs)
  have c: "buildLocks (appointments (the storeCancelled)) ''B'' = []"
    using lock_derivation[of "appointments (the storeCancelled)" "''B''", THEN conjunct1]
      lock_derivation[of "appointments (the storeCancelled)" "''B''", THEN conjunct2, THEN conjunct1]
    by (simp add: storeCancelled_eval cancelledRecord_def lockOf_def example_defs check_defs)
  have m: "lockOf (hd (appointments (the storeA))) \<in> set (getLocksForRange (appointments (the storeA)) ''B'')"
    unfolding a by (simp add: lockOf_def example_defs check_defs)
  from lock_derivation[of "appointments (the storeA)" "''B''",
      THEN conjunct2, THEN conjunct2, THEN conjunct2, THEN conjunct1] m
  have o: "l_lockedBy (lockOf (hd (appointments (the storeA)))) \<noteq> ''B''"
    by blast
  from a m o b c show ?thesis by blast
qed

section \<open>Window eligibility\<close>








section \<open>The conflict detector\<close>


















section \<open>Ids, positions and the seeded store\<close>

text \<open>
  The statements above identify an appointment by its id. Every record-targeting command
  keeps the list of ids, and a create given an id not yet in use keeps the ids distinct; on
  a list with distinct ids, two records with different ids are two entries of the list.
\<close>

lemma replace_keeps_ids:
  "a_id nextAppt = ident \<Longrightarrow> map a_id (replaceById ident nextAppt appts) = map a_id appts"
  by (induction appts) (simp_all add: replaceById_def)

lemma targeted_keeps_ids:
  assumes "target cmd = Some ident" and "exec P amb cmd storage = (Inr appt, storage')"
  shows "\<exists>st'. storage' = Some st'
     \<and> map a_id (appointments st') = map a_id (appointments (loaded amb storage))"
proof -
  from targeted_success[OF assms] have "a_id appt = ident"
    and "storage' = committed amb storage (replaceById ident appt (appointments (loaded amb storage)))"
    by blast+
  then show ?thesis by (simp add: committed_def replace_keeps_ids)
qed

lemma create_keeps_distinct:
  assumes "createAppointment P amb inp storage = (Inr appt, storage')"
    and "distinct (map a_id (appointments (loaded amb storage)))"
    and "randomId amb \<notin> set (map a_id (appointments (loaded amb storage)))"
  shows "\<exists>st'. storage' = Some st' \<and> distinct (map a_id (appointments st'))"
  using create_success[OF assms(1)] assms(2,3)
  by (auto simp: committed_def createdRecord_def)

lemma invariant_by_position:
  assumes "distinct (map a_id appts)"
  shows "noOverlapInvariant P appts \<longleftrightarrow>
     (\<forall>i < length appts. \<forall>j < length appts.
        i \<noteq> j \<and> active (appts ! i) \<and> active (appts ! j)
          \<and> a_therapistId (appts ! i) = a_therapistId (appts ! j)
        \<longrightarrow> \<not> apptOverlap P (appts ! i) (appts ! j))"
proof -
  have ids: "a_id (appts ! i) \<noteq> a_id (appts ! j) \<longleftrightarrow> i \<noteq> j"
    if "i < length appts" "j < length appts" for i j
    using assms that nth_eq_iff_index_eq[of "map a_id appts" i j] by auto
  show ?thesis
  proof
    assume inv: "noOverlapInvariant P appts"
    show "\<forall>i < length appts. \<forall>j < length appts.
        i \<noteq> j \<and> active (appts ! i) \<and> active (appts ! j)
          \<and> a_therapistId (appts ! i) = a_therapistId (appts ! j)
        \<longrightarrow> \<not> apptOverlap P (appts ! i) (appts ! j)"
    proof (intro allI impI)
      fix i j
      assume i: "i < length appts" and j: "j < length appts"
        and h: "i \<noteq> j \<and> active (appts ! i) \<and> active (appts ! j)
          \<and> a_therapistId (appts ! i) = a_therapistId (appts ! j)"
      from i j have "appts ! i \<in> set appts" "appts ! j \<in> set appts" by simp_all
      with inv h ids[OF i j] show "\<not> apptOverlap P (appts ! i) (appts ! j)"
        unfolding noOverlapInvariant_def by blast
    qed
  next
    assume pos: "\<forall>i < length appts. \<forall>j < length appts.
        i \<noteq> j \<and> active (appts ! i) \<and> active (appts ! j)
          \<and> a_therapistId (appts ! i) = a_therapistId (appts ! j)
        \<longrightarrow> \<not> apptOverlap P (appts ! i) (appts ! j)"
    show "noOverlapInvariant P appts"
      unfolding noOverlapInvariant_def
    proof (intro ballI impI)
      fix x y
      assume "x \<in> set appts" "y \<in> set appts"
        and h: "a_id x \<noteq> a_id y \<and> active x \<and> active y \<and> a_therapistId x = a_therapistId y"
      then obtain i j where ij: "i < length appts" "appts ! i = x" "j < length appts" "appts ! j = y"
        by (auto simp: in_set_conv_nth)
      with h have "i \<noteq> j" by auto
      with pos ij h show "\<not> apptOverlap P x y" by blast
    qed
  qed
qed

text \<open>
  The seed list of \<open>mockData\<close> does not satisfy the no-overlap invariant: \<open>a1\<close> and
  \<open>a2\<close> book therapist t1 from 09:00 and from 09:30 on the same day.
\<close>

lemma mock_seed_overlap:
  "\<not> noOverlapInvariant examplePlatform mockAppointments"
proof
  assume inv: "noOverlapInvariant examplePlatform mockAppointments"
  let ?a1 = "mockAppointments ! 0" and ?a2 = "mockAppointments ! 1"
  have "?a1 \<in> set mockAppointments" "?a2 \<in> set mockAppointments"
    by (simp_all add: mockAppointments_def)
  moreover have "a_id ?a1 \<noteq> a_id ?a2 \<and> active ?a1 \<and> active ?a2
      \<and> a_therapistId ?a1 = a_therapistId ?a2" "apptOverlap examplePlatform ?a1 ?a2"
    by (simp_all add: mockAppointments_def seedAppointment_def toISO_def example_defs check_defs)
  ultimately show False using inv unfolding noOverlapInvariant_def by blast
qed

end
